theory Spec2Isabelle
  imports Complex_Main "HOL-Library.Sublist"
begin

section \<open>JavaScript values shared by the client utilities\<close>

text \<open>
  A thrown or returned error object. Every error the utilities handle is an object with a
  string \<open>message\<close> (an \<open>Error\<close> of the engine or an error object of the storage and auth
  SDK); the empty message is the falsy one.
\<close>

datatype exn = Exn (message: string)

text \<open>Decimal rendering of a non-negative integer inside a template literal.\<close>

fun string_of_nat :: "nat \<Rightarrow> string" where
  "string_of_nat n =
     (if n < 10 then [char_of (48 + n)]
      else string_of_nat (n div 10) @ [char_of (48 + n mod 10)])"

declare string_of_nat.simps [simp del]

text \<open>
  \<open>String.prototype.split\<close> for a non-empty separator: \<open>split_from sep acc s\<close> scans \<open>s\<close>
  with the current piece accumulated (reversed) in \<open>acc\<close>.
\<close>

fun split_from :: "string \<Rightarrow> string \<Rightarrow> string \<Rightarrow> string list" where
  "split_from sep acc [] = [rev acc]"
| "split_from sep acc (c # cs) =
     (if sep \<noteq> [] \<and> prefix sep (c # cs)
      then rev acc # split_from sep [] (drop (length sep) (c # cs))
      else split_from sep (c # acc) cs)"

definition split :: "string \<Rightarrow> string \<Rightarrow> string list" where
  "split s sep = split_from sep [] s"

section \<open>The image service (\<open>utils/imageService.js\<close>)\<close>

record image_file =
  file_name :: string
  file_size :: nat
  file_type :: string

record image_config =
  maxSizeMB :: rat
  maxWidthOrHeight :: rat
  quality :: rat
  allowedTypes :: "string list"
  config_maxRetries :: int
  config_retryDelay :: int

definition IMAGE_CONFIG :: image_config where
  "IMAGE_CONFIG =
     \<lparr>maxSizeMB = 2, maxWidthOrHeight = 1920, quality = 8 / 10,
      allowedTypes = [''image/jpeg'', ''image/png'', ''image/webp'', ''image/gif''],
      config_maxRetries = 3, config_retryDelay = 1000\<rparr>"

text \<open>
  The \<open>options\<close> object of \<open>compressImage\<close>, \<open>uploadImage\<close> and \<open>uploadMultipleImages\<close>:
  every key is optional (\<open>None\<close> is an absent key).
\<close>

record image_options =
  opt_maxSizeMB :: "rat option"
  opt_maxWidthOrHeight :: "rat option"
  opt_quality :: "rat option"
  opt_maxRetries :: "int option"
  opt_retryDelay :: "int option"

definition no_options :: image_options where
  "no_options =
     \<lparr>opt_maxSizeMB = None, opt_maxWidthOrHeight = None, opt_quality = None,
      opt_maxRetries = None, opt_retryDelay = None\<rparr>"

text \<open>The object spread \<open>{...IMAGE_CONFIG, ...options}\<close>: a key of \<open>options\<close> wins.\<close>

definition spread :: "image_config \<Rightarrow> image_options \<Rightarrow> image_config" where
  "spread cfg options =
     \<lparr>maxSizeMB = (case opt_maxSizeMB options of None \<Rightarrow> maxSizeMB cfg | Some v \<Rightarrow> v),
      maxWidthOrHeight =
        (case opt_maxWidthOrHeight options of None \<Rightarrow> maxWidthOrHeight cfg | Some v \<Rightarrow> v),
      quality = (case opt_quality options of None \<Rightarrow> quality cfg | Some v \<Rightarrow> v),
      allowedTypes = allowedTypes cfg,
      config_maxRetries = (case opt_maxRetries options of None \<Rightarrow> config_maxRetries cfg | Some v \<Rightarrow> v),
      config_retryDelay = (case opt_retryDelay options of None \<Rightarrow> config_retryDelay cfg | Some v \<Rightarrow> v)\<rparr>"

subsection \<open>The outside world of the service\<close>

text \<open>
  The calls the service makes to the outside, in the order it makes them. The storage SDK,
  the compression library, the clock and the random generator answer as they like: each is
  a function of the number of calls logged so far.
\<close>

datatype event =
    EvCompress image_file
  | EvUpload string string image_file string bool
  | EvGetPublicUrl string string
  | EvRemove string "string list"
  | EvDelay int

record env =
  supabaseUrl :: "string option"
  engine_TypeError :: exn
  imageCompression :: "nat \<Rightarrow> image_file \<Rightarrow> image_config \<Rightarrow> exn + image_file"
  Date_now :: "nat \<Rightarrow> nat"
  random_id :: "nat \<Rightarrow> string"
  storage_upload :: "nat \<Rightarrow> string \<Rightarrow> string \<Rightarrow> image_file \<Rightarrow> exn + exn option"
  storage_getPublicUrl :: "nat \<Rightarrow> string \<Rightarrow> string \<Rightarrow> exn + string option"
  storage_remove :: "nat \<Rightarrow> string \<Rightarrow> string list \<Rightarrow> exn + exn option"

record world =
  cache :: "string \<rightharpoonup> string"
  trace :: "event list"

definition emit :: "event \<Rightarrow> world \<Rightarrow> world" where
  "emit e w = w\<lparr>trace := trace w @ [e]\<rparr>"

definition bucket :: string where
  "bucket = ''post-images''"

subsection \<open>\<open>compressImage\<close>\<close>

text \<open>
  The body of the \<open>try\<close> block: the file is returned as it is when its size is within
  \<open>maxSizeMB * 1024 * 1024\<close>; otherwise the compression library is called, and its
  rejection is the exception of the block.
\<close>

definition compressImage_try ::
  "env \<Rightarrow> image_file \<Rightarrow> image_options \<Rightarrow> world \<Rightarrow> (exn + image_file) \<times> world" where
  "compressImage_try env file options w =
     (let compressionOptions = spread IMAGE_CONFIG options in
      if of_nat (file_size file) \<le> maxSizeMB compressionOptions * 1024 * 1024
      then (Inr file, w)
      else (imageCompression env (length (trace w)) file compressionOptions,
            emit (EvCompress file) w))"

definition compressImage ::
  "env \<Rightarrow> image_file \<Rightarrow> image_options \<Rightarrow> world \<Rightarrow> (exn + image_file) \<times> world" where
  "compressImage env file options w =
     (case compressImage_try env file options w of
        (Inr compressedFile, w') \<Rightarrow> (Inr compressedFile, w')
      | (Inl error, w') \<Rightarrow> (Inr file, w'))"

subsection \<open>\<open>validateFile\<close>\<close>







subsection \<open>\<open>generateFilename\<close>\<close>

text \<open>
  \<open>Array.prototype.pop\<close> on the pieces of a split, which are never empty for a list the
  split returns; on the empty array it is \<open>undefined\<close>, which a template renders as such.
\<close>

definition pop :: "string list \<Rightarrow> string" where
  "pop pieces = (case pieces of [] \<Rightarrow> ''undefined'' | _ \<Rightarrow> last pieces)"

text \<open>
  \<open>Date_now env n\<close> and \<open>random_id env n\<close> are \<open>Date.now()\<close> and
  \<open>Math.random().toString(36).substring(2, 8)\<close> read after \<open>n\<close> logged calls.
\<close>

definition generateFilename :: "env \<Rightarrow> nat \<Rightarrow> string \<Rightarrow> string \<Rightarrow> string" where
  "generateFilename env n originalName entityId =
     (let timestamp = Date_now env n;
          randomId = random_id env n;
          extension = pop (split originalName ''.'')
      in entityId @ ''/'' @ string_of_nat timestamp @ ''-'' @ randomId @ ''.'' @ extension)"

subsection \<open>\<open>constructCdnUrl\<close> and \<open>getPublicUrl\<close>\<close>

text \<open>
  \<open>supabaseUrl.split('//')[1].split('.')[0]\<close>: reading a property of \<open>undefined\<close> (an unset
  environment variable, or a URL without \<open>//\<close>) throws the engine's TypeError.
\<close>

definition constructCdnUrl :: "env \<Rightarrow> string \<Rightarrow> exn + string" where
  "constructCdnUrl env storagePath =
     (case supabaseUrl env of
        None \<Rightarrow> Inl (engine_TypeError env)
      | Some url \<Rightarrow>
          (case split url ''//'' of
             _ # rest # _ \<Rightarrow>
               (case split rest ''.'' of
                  projectRef # _ \<Rightarrow>
                    Inr (''https://'' @ projectRef @
                         ''.supabase.co/storage/v1/object/public/'' @ bucket @ ''/'' @
                         storagePath)
                | [] \<Rightarrow> Inl (engine_TypeError env))
           | _ \<Rightarrow> Inl (engine_TypeError env)))"

text \<open>The fallback after the \<open>try\<close> block of \<open>getPublicUrl\<close>; its exception leaves the method.\<close>

definition getPublicUrl_fallback ::
  "env \<Rightarrow> string \<Rightarrow> world \<Rightarrow> (exn + string) \<times> world" where
  "getPublicUrl_fallback env storagePath w =
     (case constructCdnUrl env storagePath of
        Inl error \<Rightarrow> (Inl error, w)
      | Inr fallbackUrl \<Rightarrow> (Inr fallbackUrl, w\<lparr>cache := (cache w)(storagePath \<mapsto> fallbackUrl)\<rparr>))"

text \<open>
  The SDK's answer is \<open>Inl\<close> when the call throws, \<open>Inr None\<close> when \<open>data\<close> or
  \<open>data.publicUrl\<close> is missing, and \<open>Inr (Some url)\<close> for \<open>data.publicUrl = url\<close>; the empty
  string is falsy, in the cache as in the answer.
\<close>

definition getPublicUrl_generate ::
  "env \<Rightarrow> string \<Rightarrow> world \<Rightarrow> (exn + string) \<times> world" where
  "getPublicUrl_generate env storagePath w =
     (let w1 = emit (EvGetPublicUrl bucket storagePath) w in
      case storage_getPublicUrl env (length (trace w)) bucket storagePath of
        Inr (Some publicUrl) \<Rightarrow>
          (if publicUrl \<noteq> []
           then (Inr publicUrl, w1\<lparr>cache := (cache w1)(storagePath \<mapsto> publicUrl)\<rparr>)
           else getPublicUrl_fallback env storagePath w1)
      | Inr None \<Rightarrow> getPublicUrl_fallback env storagePath w1
      | Inl error \<Rightarrow> getPublicUrl_fallback env storagePath w1)"

definition getPublicUrl :: "env \<Rightarrow> string \<Rightarrow> world \<Rightarrow> (exn + string) \<times> world" where
  "getPublicUrl env storagePath w =
     (case cache w storagePath of
        Some cachedUrl \<Rightarrow>
          (if cachedUrl \<noteq> [] then (Inr cachedUrl, w)
           else getPublicUrl_generate env storagePath w)
      | None \<Rightarrow> getPublicUrl_generate env storagePath w)"

subsection \<open>\<open>uploadImage\<close>\<close>

record upload_data =
  storage_path :: string
  filename :: string
  original_filename :: string
  file_size_field :: nat
  mime_type :: string
  image_url :: string
  publicUrl :: string
  storagePath :: string

text \<open>The value of \<open>lastError || 'Upload failed after multiple attempts'\<close>.\<close>

datatype upload_error = ErrorObject exn | ErrorText string

text \<open>
  The two shapes of the object \<open>uploadImage\<close> returns: \<open>{success: true, data, attempt}\<close> and
  \<open>{success: false, error, attempts}\<close>.
\<close>

datatype upload_result =
    UploadOk upload_data int
  | UploadFailed upload_error int

fun success :: "upload_result \<Rightarrow> bool" where
  "success (UploadOk d a) = True"
| "success (UploadFailed e a) = False"

text \<open>
  The body of the \<open>try\<close> block of one attempt. \<open>Inl\<close> is the exception the \<open>catch\<close> block
  receives: a rejected upload call, the \<open>error\<close> of the SDK's answer, or an exception of
  \<open>getPublicUrl\<close>.
\<close>

definition uploadImage_try ::
  "env \<Rightarrow> image_file \<Rightarrow> string \<Rightarrow> image_options \<Rightarrow> world \<Rightarrow> (exn + upload_data) \<times> world" where
  "uploadImage_try env file entityId options w =
     (case compressImage env file options w of
        (Inl error, w1) \<Rightarrow> (Inl error, w1)
      | (Inr compressedFile, w1) \<Rightarrow>
          (let path = generateFilename env (length (trace w1)) (file_name file) entityId;
               w2 = emit (EvUpload bucket path compressedFile (file_type compressedFile) False) w1
           in case storage_upload env (length (trace w1)) bucket path compressedFile of
                Inl error \<Rightarrow> (Inl error, w2)
              | Inr (Some error) \<Rightarrow> (Inl error, w2)
              | Inr None \<Rightarrow>
                  (case getPublicUrl env path w2 of
                     (Inl error, w3) \<Rightarrow> (Inl error, w3)
                   | (Inr url, w3) \<Rightarrow>
                       (Inr \<lparr>storage_path = path,
                             filename = pop (split path ''/''),
                             original_filename = file_name file,
                             file_size_field = file_size compressedFile,
                             mime_type = file_type compressedFile,
                             image_url = url,
                             publicUrl = url,
                             storagePath = path\<rparr>,
                        w3\<lparr>cache := (cache w3)(path \<mapsto> url)\<rparr>))))"

text \<open>
  The \<open>for\<close> loop from \<open>attempt\<close> on, with \<open>lastError\<close> as the loop has left it
  (\<open>None\<close> is \<open>null\<close>).
\<close>

function uploadImage_loop ::
  "env \<Rightarrow> image_file \<Rightarrow> string \<Rightarrow> image_options \<Rightarrow> int \<Rightarrow> int \<Rightarrow> int \<Rightarrow> exn option \<Rightarrow> world
   \<Rightarrow> upload_result \<times> world" where
  "uploadImage_loop env file entityId options maxRetries retryDelay attempt lastError w =
     (if attempt \<le> maxRetries
      then (case uploadImage_try env file entityId options w of
              (Inr d, w') \<Rightarrow> (UploadOk d attempt, w')
            | (Inl error, w') \<Rightarrow>
                uploadImage_loop env file entityId options maxRetries retryDelay (attempt + 1)
                  (Some error)
                  (if attempt < maxRetries then emit (EvDelay retryDelay) w' else w'))
      else (UploadFailed
              (case lastError of
                 Some e \<Rightarrow> ErrorObject e
               | None \<Rightarrow> ErrorText ''Upload failed after multiple attempts'')
              maxRetries, w))"
  by pat_completeness auto
termination
  by (relation "measure (\<lambda>(env, file, entityId, options, maxRetries, retryDelay, attempt, lastError, w).
                  nat (maxRetries + 1 - attempt))") auto

declare uploadImage_loop.simps [simp del]

text \<open>\<open>a || b\<close> on an optional number: \<open>undefined\<close> and \<open>0\<close> are falsy.\<close>

definition number_or :: "int option \<Rightarrow> int \<Rightarrow> int" where
  "number_or a b = (case a of None \<Rightarrow> b | Some v \<Rightarrow> if v = 0 then b else v)"

definition uploadImage ::
  "env \<Rightarrow> image_file \<Rightarrow> string \<Rightarrow> image_options \<Rightarrow> world \<Rightarrow> upload_result \<times> world" where
  "uploadImage env file entityId options w =
     (let maxRetries = number_or (opt_maxRetries options) (config_maxRetries IMAGE_CONFIG);
          retryDelay = number_or (opt_retryDelay options) (config_retryDelay IMAGE_CONFIG)
      in uploadImage_loop env file entityId options maxRetries retryDelay 1 None w)"

subsection \<open>\<open>uploadMultipleImages\<close>\<close>

record failed_upload =
  failed_file :: string
  failed_error :: upload_error
  failed_attempt :: int

record upload_summary =
  total :: nat
  successful :: nat
  failed :: nat

record batch_result =
  batch_success :: bool
  results :: "upload_result list"
  successfulUploads :: "upload_data list"
  failedUploads :: "failed_upload list"
  summary :: upload_summary

text \<open>
  The \<open>for\<close> loop over the files still to upload, with the three arrays as the loop has
  filled them so far.
\<close>

fun uploadMultipleImages_loop ::
  "env \<Rightarrow> image_file list \<Rightarrow> string \<Rightarrow> image_options
   \<Rightarrow> upload_result list \<Rightarrow> upload_data list \<Rightarrow> failed_upload list \<Rightarrow> world
   \<Rightarrow> (upload_result list \<times> upload_data list \<times> failed_upload list) \<times> world" where
  "uploadMultipleImages_loop env [] entityId options rs ss fs w = ((rs, ss, fs), w)"
| "uploadMultipleImages_loop env (file # files) entityId options rs ss fs w =
     (case uploadImage env file entityId options w of
        (result, w') \<Rightarrow>
          (case result of
             UploadOk d a \<Rightarrow>
               uploadMultipleImages_loop env files entityId options (rs @ [result]) (ss @ [d]) fs w'
           | UploadFailed e n \<Rightarrow>
               uploadMultipleImages_loop env files entityId options (rs @ [result]) ss
                 (fs @ [\<lparr>failed_file = file_name file, failed_error = e, failed_attempt = n\<rparr>])
                 w'))"

definition uploadMultipleImages ::
  "env \<Rightarrow> image_file list \<Rightarrow> string \<Rightarrow> image_options \<Rightarrow> world \<Rightarrow> batch_result \<times> world" where
  "uploadMultipleImages env files entityId options w =
     (case uploadMultipleImages_loop env files entityId options [] [] [] w of
        ((rs, ss, fs), w') \<Rightarrow>
          (\<lparr>batch_success = (length fs = 0),
            results = rs,
            successfulUploads = ss,
            failedUploads = fs,
            summary = \<lparr>total = length files, successful = length ss, failed = length fs\<rparr>\<rparr>,
           w'))"

subsection \<open>\<open>deleteImage\<close>\<close>

text \<open>The two shapes of the object \<open>deleteImage\<close> returns.\<close>

datatype delete_result =
    DeleteOk string
  | DeleteFailed string

definition deleteImage :: "env \<Rightarrow> string \<Rightarrow> world \<Rightarrow> delete_result \<times> world" where
  "deleteImage env path w =
     (let w1 = emit (EvRemove bucket [path]) w in
      case storage_remove env (length (trace w)) bucket [path] of
        Inl error \<Rightarrow> (DeleteFailed (message error), w1)
      | Inr (Some error) \<Rightarrow> (DeleteFailed (message error), w1)
      | Inr None \<Rightarrow>
          (DeleteOk ''Image deleted successfully'', w1\<lparr>cache := (cache w1)(path := None)\<rparr>))"

section \<open>The REST client (\<open>utils/apiClient.js\<close>)\<close>

subsection \<open>Values of a response body\<close>

text \<open>
  A JavaScript value as \<open>JSON.parse\<close> and \<open>response.json()\<close> produce it, with \<open>undefined\<close>
  for a property that is not there. The pairs of \<open>Obj\<close> are the own properties of the object.
\<close>

datatype jsval =
    Undefined
  | Null
  | Bool bool
  | Num rat
  | Str string
  | Arr "jsval list"
  | Obj "(string \<times> jsval) list"

fun truthy :: "jsval \<Rightarrow> bool" where
  "truthy Undefined = False"
| "truthy Null = False"
| "truthy (Bool b) = b"
| "truthy (Num n) = (n \<noteq> 0)"
| "truthy (Str s) = (s \<noteq> [])"
| "truthy (Arr vs) = True"
| "truthy (Obj kvs) = True"

text \<open>\<open>a || b\<close> with both operands already evaluated.\<close>

definition js_or :: "jsval \<Rightarrow> jsval \<Rightarrow> jsval" where
  "js_or a b = (if truthy a then a else b)"

fun nullish :: "jsval \<Rightarrow> bool" where
  "nullish Undefined = True"
| "nullish Null = True"
| "nullish v = False"

text \<open>
  The property \<open>k\<close> of a value that is neither \<open>null\<close> nor \<open>undefined\<close>, for the keys the
  client reads (\<open>error\<close>, \<open>message\<close>, \<open>access_token\<close>, \<open>session\<close>, \<open>currentSession\<close>): only an
  object has them.
\<close>

fun field :: "jsval \<Rightarrow> string \<Rightarrow> jsval" where
  "field (Obj kvs) k = (case map_of kvs k of None \<Rightarrow> Undefined | Some v \<Rightarrow> v)"
| "field v k = Undefined"

text \<open>
  The property read \<open>v.k\<close>: on \<open>null\<close> and \<open>undefined\<close> the engine throws its TypeError, which
  is the first argument.
\<close>

definition get_property :: "exn \<Rightarrow> jsval \<Rightarrow> string \<Rightarrow> exn + jsval" where
  "get_property type_error v k = (if nullish v then Inl type_error else Inr (field v k))"

text \<open>\<open>String.prototype.includes\<close>.\<close>

fun string_includes :: "string \<Rightarrow> string \<Rightarrow> bool" where
  "string_includes [] sub = (sub = [])"
| "string_includes (c # cs) sub = (prefix sub (c # cs) \<or> string_includes cs sub)"

subsection \<open>Requests, responses and the environment of the client\<close>

record request =
  req_url :: string
  req_method :: "string option"
  req_headers :: "(string \<times> string) list"
  req_body :: "string option"

text \<open>
  What the client reads of a \<open>Response\<close>: \<open>ok\<close>, \<open>status\<close>, \<open>headers.get("content-type")\<close>, and
  the outcomes of \<open>json()\<close> and \<open>text()\<close>, which reject with an exception or resolve.
\<close>

record response =
  resp_ok :: bool
  resp_status :: nat
  resp_content_type :: "string option"
  resp_json :: "exn + jsval"
  resp_text :: "exn + string"

record auth_session =
  access_token :: string

text \<open>
  \<open>auth_getSession\<close> is the outcome of \<open>supabase.auth.getSession()\<close>: \<open>Inl\<close> when the call
  rejects (or its answer cannot be destructured), otherwise the \<open>session\<close> (\<open>None\<close> is \<open>null\<close>)
  and the \<open>error\<close> of the answer. \<open>property_TypeError\<close> is the engine's exception for a
  property read on \<open>null\<close>. \<open>localStorage_getItem\<close> is \<open>localStorage.getItem\<close>, which throws
  where the storage is not accessible and answers \<open>None\<close> (\<open>null\<close>) for a key without a value.
\<close>

record api_env =
  API_URL :: string
  auth_getSession :: "exn + (auth_session option \<times> exn option)"
  fetch :: "request \<Rightarrow> exn + response"
  JSON_parse :: "string \<Rightarrow> exn + jsval"
  JSON_stringify :: "jsval \<Rightarrow> string option"
  property_TypeError :: exn
  localStorage_getItem :: "string \<Rightarrow> exn + string option"

text \<open>
  The object a method resolves to; \<open>status\<close> is a key of the normal answer of \<open>get\<close> only.
\<close>

record api_result =
  api_success :: bool
  api_data :: jsval
  api_error :: jsval
  api_status :: "nat option"

subsection \<open>\<open>getAuthToken\<close>\<close>

definition getAuthToken :: "api_env \<Rightarrow> string option" where
  "getAuthToken env =
     (case auth_getSession env of
        Inl error \<Rightarrow> None
      | Inr (session, Some error) \<Rightarrow> None
      | Inr (session, None) \<Rightarrow>
          (case session of
             None \<Rightarrow> None
           | Some s \<Rightarrow> if access_token s \<noteq> [] then Some (access_token s) else None))"

text \<open>\<open>if (token) headers["Authorization"] = `Bearer ${token}`\<close>.\<close>

definition authorize :: "(string \<times> string) list \<Rightarrow> string option \<Rightarrow> (string \<times> string) list" where
  "authorize headers token =
     (case token of
        None \<Rightarrow> headers
      | Some t \<Rightarrow> if t \<noteq> [] then headers @ [(''Authorization'', ''Bearer '' @ t)] else headers)"

text \<open>The \<open>catch\<close> block every method ends with.\<close>

definition network_failure :: "exn \<Rightarrow> api_result" where
  "network_failure error =
     \<lparr>api_success = False, api_data = Null,
      api_error =
        Str (if message error \<noteq> [] then message error
             else ''Network error. Please try again later.''),
      api_status = None\<rparr>"

subsection \<open>The methods of \<open>src/client/src/utils/apiClient.js\<close>\<close>

text \<open>
  Each method is given with the token \<open>getAuthToken\<close> has returned; it answers with its result
  and the requests it has handed to \<open>fetch\<close>.
\<close>

text \<open>The body of a response as \<open>get\<close> reads it.\<close>

definition get_text_body :: "api_env \<Rightarrow> response \<Rightarrow> exn + jsval" where
  "get_text_body env response =
     (case resp_text response of
        Inl error \<Rightarrow> Inl error
      | Inr text \<Rightarrow>
          (case JSON_parse env text of
             Inr v \<Rightarrow> Inr v
           | Inl e \<Rightarrow> Inr (Obj [(''error'', Str (if text \<noteq> [] then text else ''Request failed''))])))"

definition get_body :: "api_env \<Rightarrow> response \<Rightarrow> exn + jsval" where
  "get_body env response =
     (case resp_content_type response of
        None \<Rightarrow> get_text_body env response
      | Some contentType \<Rightarrow>
          if contentType \<noteq> [] \<and> string_includes contentType ''application/json''
          then resp_json response
          else get_text_body env response)"

definition get_with :: "api_env \<Rightarrow> string option \<Rightarrow> string \<Rightarrow> api_result \<times> request list" where
  "get_with env token endpoint =
     (let headers = authorize [(''Content-Type'', ''application/json'')] token;
          request = \<lparr>req_url = API_URL env @ endpoint, req_method = None,
                     req_headers = headers, req_body = None\<rparr>
      in case fetch env request of
           Inl error \<Rightarrow> (network_failure error, [request])
         | Inr response \<Rightarrow>
             (case get_body env response of
                Inl error \<Rightarrow> (network_failure error, [request])
              | Inr data \<Rightarrow>
                  if resp_ok response
                  then (\<lparr>api_success = True, api_data = data, api_error = Null,
                         api_status = Some (resp_status response)\<rparr>, [request])
                  else (case get_property (property_TypeError env) data ''error'' of
                          Inl error \<Rightarrow> (network_failure error, [request])
                        | Inr e \<Rightarrow>
                            (\<lparr>api_success = False, api_data = Null,
                              api_error =
                                js_or e
                                  (js_or (field data ''message'')
                                     (Str (''HTTP '' @ string_of_nat (resp_status response)))),
                              api_status = Some (resp_status response)\<rparr>, [request]))))"

definition apiClient_get :: "api_env \<Rightarrow> string \<Rightarrow> api_result \<times> request list" where
  "apiClient_get env endpoint = get_with env (getAuthToken env) endpoint"

text \<open>
  \<open>post\<close> and \<open>put\<close> differ in the method only; the data to send is a value without cycles,
  which \<open>JSON.stringify\<close> renders without an exception.
\<close>

definition post_with ::
  "api_env \<Rightarrow> string option \<Rightarrow> string \<Rightarrow> jsval \<Rightarrow> api_result \<times> request list" where
  "post_with env token endpoint data =
     (let headers = authorize [(''Content-Type'', ''application/json'')] token;
          request = \<lparr>req_url = API_URL env @ endpoint, req_method = Some ''POST'',
                     req_headers = headers, req_body = JSON_stringify env data\<rparr>
      in case fetch env request of
           Inl error \<Rightarrow> (network_failure error, [request])
         | Inr response \<Rightarrow>
             (case resp_json response of
                Inl error \<Rightarrow> (network_failure error, [request])
              | Inr responseData \<Rightarrow>
                  if resp_ok response
                  then (\<lparr>api_success = True, api_data = responseData, api_error = Null,
                         api_status = None\<rparr>, [request])
                  else (case get_property (property_TypeError env) responseData ''error'' of
                          Inl error \<Rightarrow> (network_failure error, [request])
                        | Inr e \<Rightarrow>
                            (\<lparr>api_success = False, api_data = Null, api_error = e,
                              api_status = None\<rparr>, [request]))))"

definition apiClient_post :: "api_env \<Rightarrow> string \<Rightarrow> jsval \<Rightarrow> api_result \<times> request list" where
  "apiClient_post env endpoint data = post_with env (getAuthToken env) endpoint data"

definition put_with ::
  "api_env \<Rightarrow> string option \<Rightarrow> string \<Rightarrow> jsval \<Rightarrow> api_result \<times> request list" where
  "put_with env token endpoint data =
     (let headers = authorize [(''Content-Type'', ''application/json'')] token;
          request = \<lparr>req_url = API_URL env @ endpoint, req_method = Some ''PUT'',
                     req_headers = headers, req_body = JSON_stringify env data\<rparr>
      in case fetch env request of
           Inl error \<Rightarrow> (network_failure error, [request])
         | Inr response \<Rightarrow>
             (case resp_json response of
                Inl error \<Rightarrow> (network_failure error, [request])
              | Inr responseData \<Rightarrow>
                  if resp_ok response
                  then (\<lparr>api_success = True, api_data = responseData, api_error = Null,
                         api_status = None\<rparr>, [request])
                  else (case get_property (property_TypeError env) responseData ''error'' of
                          Inl error \<Rightarrow> (network_failure error, [request])
                        | Inr e \<Rightarrow>
                            (\<lparr>api_success = False, api_data = Null, api_error = e,
                              api_status = None\<rparr>, [request]))))"

definition apiClient_put :: "api_env \<Rightarrow> string \<Rightarrow> jsval \<Rightarrow> api_result \<times> request list" where
  "apiClient_put env endpoint data = put_with env (getAuthToken env) endpoint data"

definition delete_with :: "api_env \<Rightarrow> string option \<Rightarrow> string \<Rightarrow> api_result \<times> request list" where
  "delete_with env token endpoint =
     (let headers = authorize [(''Content-Type'', ''application/json'')] token;
          request = \<lparr>req_url = API_URL env @ endpoint, req_method = Some ''DELETE'',
                     req_headers = headers, req_body = None\<rparr>
      in case fetch env request of
           Inl error \<Rightarrow> (network_failure error, [request])
         | Inr response \<Rightarrow>
             (case resp_json response of
                Inl error \<Rightarrow> (network_failure error, [request])
              | Inr responseData \<Rightarrow>
                  if resp_ok response
                  then (\<lparr>api_success = True, api_data = responseData, api_error = Null,
                         api_status = None\<rparr>, [request])
                  else (case get_property (property_TypeError env) responseData ''error'' of
                          Inl error \<Rightarrow> (network_failure error, [request])
                        | Inr e \<Rightarrow>
                            (\<lparr>api_success = False, api_data = Null,
                              api_error = js_or e (Str ''Failed to delete resource''),
                              api_status = None\<rparr>, [request]))))"

definition apiClient_delete :: "api_env \<Rightarrow> string \<Rightarrow> api_result \<times> request list" where
  "apiClient_delete env endpoint = delete_with env (getAuthToken env) endpoint"

subsection \<open>The methods of \<open>src/client/ExtraFiles/src/utils/apiClient.js\<close>\<close>

text \<open>Optional chaining \<open>v?.k\<close>.\<close>

definition optional_field :: "jsval \<Rightarrow> string \<Rightarrow> jsval" where
  "optional_field v k = (if nullish v then Undefined else field v k)"

text \<open>
  A truthy token found in a parsed entry is logged through \<open>substring\<close> before it is
  returned; on a value that is not a string this throws, and the \<open>catch\<close> around the entry
  goes on to the next key.
\<close>

fun logged_token :: "jsval \<Rightarrow> string option" where
  "logged_token (Str t) = Some t"
| "logged_token v = None"

definition parsed_token :: "jsval \<Rightarrow> string option" where
  "parsed_token parsedToken =
     (if truthy (optional_field (optional_field parsedToken ''currentSession'') ''access_token'')
      then logged_token
             (optional_field (optional_field parsedToken ''currentSession'') ''access_token'')
      else if truthy (optional_field parsedToken ''access_token'')
      then logged_token (optional_field parsedToken ''access_token'')
      else if truthy (optional_field (optional_field parsedToken ''session'') ''access_token'')
      then logged_token (optional_field (optional_field parsedToken ''session'') ''access_token'')
      else None)"

datatype scan = Found string | NotFound | Threw

text \<open>The loop over the possible keys.\<close>

fun scan_keys :: "api_env \<Rightarrow> string list \<Rightarrow> scan" where
  "scan_keys env [] = NotFound"
| "scan_keys env (key # keys) =
     (case localStorage_getItem env key of
        Inl error \<Rightarrow> Threw
      | Inr None \<Rightarrow> scan_keys env keys
      | Inr (Some token) \<Rightarrow>
          if token \<noteq> []
          then (case JSON_parse env token of
                  Inl parseError \<Rightarrow> scan_keys env keys
                | Inr parsedToken \<Rightarrow>
                    (case parsed_token parsedToken of
                       Some t \<Rightarrow> Found t
                     | None \<Rightarrow> scan_keys env keys))
          else scan_keys env keys)"

definition possibleKeys :: "string list" where
  "possibleKeys = [''supabase.auth.token'', ''supabase.session'', ''auth:token'']"

definition extra_getAuthToken :: "api_env \<Rightarrow> string option" where
  "extra_getAuthToken env =
     (case scan_keys env possibleKeys of
        Found t \<Rightarrow> Some t
      | Threw \<Rightarrow> None
      | NotFound \<Rightarrow>
          (case localStorage_getItem env ''access_token'' of
             Inl error \<Rightarrow> None
           | Inr None \<Rightarrow> None
           | Inr (Some directToken) \<Rightarrow>
               if directToken \<noteq> [] then Some directToken else None))"






subsection \<open>Normalisation as the specification words it\<close>

text \<open>
  A result \<open>r\<close> normalises an answer of \<open>fetch\<close>, for the way \<open>body\<close> a method reads the body
  of a response and the rule \<open>err\<close> that gives the error of a failed response: \<open>success\<close> is
  \<open>response.ok\<close>, \<open>data\<close> is the body of a successful response and \<open>null\<close> otherwise, \<open>error\<close>
  is \<open>null\<close> for a successful response and given by the rule otherwise; an exception of
  \<open>fetch\<close> or of the reading of the body gives the result of the \<open>catch\<close> block, and so does
  a failed response whose body is \<open>null\<close>, for the property read on it throws.
\<close>

definition normalizes ::
  "api_env \<Rightarrow> api_result \<Rightarrow> exn + response \<Rightarrow> (response \<Rightarrow> exn + jsval)
   \<Rightarrow> (jsval \<Rightarrow> response \<Rightarrow> jsval) \<Rightarrow> bool" where
  "normalizes env r answer body err =
     (case answer of
        Inl e \<Rightarrow> r = network_failure e
      | Inr resp \<Rightarrow>
          (case body resp of
             Inl e \<Rightarrow> r = network_failure e
           | Inr b \<Rightarrow>
               if resp_ok resp
               then api_success r \<and> api_data r = b \<and> api_error r = Null
               else if nullish b then r = network_failure (property_TypeError env)
               else \<not> api_success r \<and> api_data r = Null \<and> api_error r = err b resp))"

text \<open>The error rules: the body's \<open>error\<close> field; the rule of \<open>delete\<close>; the rule of \<open>get\<close>.\<close>

definition error_field :: "jsval \<Rightarrow> response \<Rightarrow> jsval" where
  "error_field b resp = field b ''error''"

definition delete_error :: "jsval \<Rightarrow> response \<Rightarrow> jsval" where
  "delete_error b resp = js_or (field b ''error'') (Str ''Failed to delete resource'')"

definition get_error :: "jsval \<Rightarrow> response \<Rightarrow> jsval" where
  "get_error b resp =
     js_or (field b ''error'')
       (js_or (field b ''message'') (Str (''HTTP '' @ string_of_nat (resp_status resp))))"

text \<open>The headers of a request sent with the token \<open>token\<close> (\<open>None\<close> is \<open>null\<close>).\<close>

definition headers_with :: "string option \<Rightarrow> (string \<times> string) list" where
  "headers_with token =
     (''Content-Type'', ''application/json'') #
     (case token of None \<Rightarrow> [] | Some t \<Rightarrow> [(''Authorization'', ''Bearer '' @ t)])"

section \<open>\<open>retryUpload\<close> of \<open>utils/supabase.js\<close>\<close>

text \<open>
  The object the upload function resolves to, as \<open>retryUpload\<close> reads it: \<open>success\<close> and
  \<open>error\<close>.
\<close>

record function_result =
  fn_success :: bool
  fn_error :: jsval

text \<open>The calls of the upload function and the waits, in order.\<close>

datatype retry_event = Called | Slept int

text \<open>\<open>lastError\<close>: a caught exception, or the \<open>error\<close> of a result (\<open>undefined\<close> at first).\<close>

datatype last_error = Thrown exn | Returned jsval

datatype retry_result =
    RetryOk function_result
  | RetryFailed last_error

text \<open>
  \<open>error?.includes(sub)\<close>: \<open>undefined\<close> on \<open>null\<close> and \<open>undefined\<close>, the test for a substring on
  a string and for an element on an array; any other value has no \<open>includes\<close>, and the call
  throws the engine's TypeError, the first argument.
\<close>

fun error_includes :: "exn \<Rightarrow> jsval \<Rightarrow> string \<Rightarrow> exn + bool" where
  "error_includes type_error Undefined sub = Inr False"
| "error_includes type_error Null sub = Inr False"
| "error_includes type_error (Str s) sub = Inr (string_includes s sub)"
| "error_includes type_error (Arr vs) sub = Inr (Str sub \<in> set vs)"
| "error_includes type_error v sub = Inl type_error"

text \<open>
  \<open>result.error?.includes('Invalid file') || result.error?.includes('validation')\<close>.
\<close>

definition is_validation_error :: "exn \<Rightarrow> jsval \<Rightarrow> exn + bool" where
  "is_validation_error type_error e =
     (case error_includes type_error e ''Invalid file'' of
        Inl x \<Rightarrow> Inl x
      | Inr True \<Rightarrow> Inr True
      | Inr False \<Rightarrow> error_includes type_error e ''validation'')"

text \<open>\<open>lastError || 'Upload failed after multiple attempts'\<close>.\<close>

definition final_error :: "last_error \<Rightarrow> last_error" where
  "final_error lastError =
     (case lastError of
        Thrown e \<Rightarrow> Thrown e
      | Returned v \<Rightarrow> Returned (js_or v (Str ''Upload failed after multiple attempts'')))"

text \<open>
  The \<open>for\<close> loop from \<open>attempt\<close> on. The upload function answers as it likes: its outcome is
  a function of the number of events so far.
\<close>

function retryUpload_loop ::
  "(nat \<Rightarrow> exn + function_result) \<Rightarrow> exn \<Rightarrow> int \<Rightarrow> int \<Rightarrow> int \<Rightarrow> last_error \<Rightarrow> retry_event list
   \<Rightarrow> retry_result \<times> retry_event list" where
  "retryUpload_loop uploadFunction type_error maxRetries delay attempt lastError events =
     (if attempt \<le> maxRetries
      then (case uploadFunction (length events) of
              Inl error \<Rightarrow>
                retryUpload_loop uploadFunction type_error maxRetries delay (attempt + 1)
                  (Thrown error)
                  (events @ [Called, Slept (delay * 2 ^ nat (attempt - 1))])
            | Inr result \<Rightarrow>
                if fn_success result then (RetryOk result, events @ [Called])
                else (case is_validation_error type_error (fn_error result) of
                        Inl error \<Rightarrow>
                          retryUpload_loop uploadFunction type_error maxRetries delay (attempt + 1)
                            (Thrown error)
                            (events @ [Called, Slept (delay * 2 ^ nat (attempt - 1))])
                      | Inr True \<Rightarrow>
                          (RetryFailed (final_error (Returned (fn_error result))),
                           events @ [Called])
                      | Inr False \<Rightarrow>
                          retryUpload_loop uploadFunction type_error maxRetries delay (attempt + 1)
                            (Returned (fn_error result))
                            (events @ [Called, Slept (delay * 2 ^ nat (attempt - 1))])))
      else (RetryFailed (final_error lastError), events))"
  by pat_completeness auto
termination
  by (relation "measure (\<lambda>(uploadFunction, type_error, maxRetries, delay, attempt, lastError, events).
                  nat (maxRetries + 1 - attempt))") auto

declare retryUpload_loop.simps [simp del]

text \<open>The default parameters: \<open>maxRetries = 3\<close>, \<open>delay = 1000\<close>.\<close>

definition retryUpload ::
  "(nat \<Rightarrow> exn + function_result) \<Rightarrow> exn \<Rightarrow> int option \<Rightarrow> int option \<Rightarrow> retry_event list
   \<Rightarrow> retry_result \<times> retry_event list" where
  "retryUpload uploadFunction type_error maxRetries delay events =
     retryUpload_loop uploadFunction type_error
       (case maxRetries of None \<Rightarrow> 3 | Some m \<Rightarrow> m)
       (case delay of None \<Rightarrow> 1000 | Some d \<Rightarrow> d)
       1 (Returned Undefined) events"

fun sleeps :: "retry_event list \<Rightarrow> int list" where
  "sleeps [] = []"
| "sleeps (Slept ms # es) = ms # sleeps es"
| "sleeps (Called # es) = sleeps es"

section \<open>The chat page (\<open>components/ChatPage.js\<close>)\<close>

record chat_user =
  user_id :: string
  user_name :: string

record message_sender =
  sender_ident :: string
  username :: string
  full_name :: string
  avatar_url :: "string option"

record chat_message =
  message_id :: string
  content :: string
  sender_id :: string
  created_at :: string
  sender :: message_sender

text \<open>
  The state of the component that \<open>handleSendMessage\<close> reads and sets (\<open>None\<close> is \<open>null\<close>);
  \<open>error_state\<close> is the state \<open>error\<close>.
\<close>

record chat_state =
  user :: "chat_user option"
  messages :: "chat_message list"
  newMessage :: string
  isSendingMessage :: bool
  error_state :: "string option"

text \<open>
  What is outside the component: the HTTP requests sent so far, the persistent storage of
  the browser, the console and the number of scroll calls on the page.
\<close>

record chat_world =
  http_requests :: "request list"
  persistent_storage :: "string \<rightharpoonup> string"
  console :: "string list list"
  scroll_calls :: nat

text \<open>
  The clock at \<open>Date.now()\<close> and at \<open>new Date()\<close>, the rendering \<open>toISOString\<close>, whether the
  reference to the end of the messages is attached, and the outcome of \<open>scrollIntoView\<close>
  (\<open>Some\<close> is an exception).
\<close>

record chat_env =
  chat_Date_now :: nat
  chat_new_Date :: nat
  toISOString :: "nat \<Rightarrow> string"
  messagesEnd_attached :: bool
  scrollIntoView :: "exn option"

text \<open>\<open>String.prototype.trim\<close> on the white space of one-byte characters.\<close>

definition js_whitespace :: "char \<Rightarrow> bool" where
  "js_whitespace c =
     (c \<in> set [CHR 0x09, CHR 0x0A, CHR 0x0B, CHR 0x0C, CHR 0x0D, CHR 0x20, CHR 0xA0])"

definition trim :: "string \<Rightarrow> string" where
  "trim s = rev (dropWhile js_whitespace (rev (dropWhile js_whitespace s)))"

text \<open>\<open>messagesEndRef.current?.scrollIntoView({ behavior: 'smooth' })\<close>.\<close>

definition scrollToBottom :: "chat_env \<Rightarrow> chat_world \<Rightarrow> exn option \<times> chat_world" where
  "scrollToBottom env w =
     (if messagesEnd_attached env
      then (scrollIntoView env, w\<lparr>scroll_calls := scroll_calls w + 1\<rparr>)
      else (None, w))"

text \<open>
  The state setters take effect in the order of the calls; the \<open>catch\<close> block restores the
  input the handler was called with, and the \<open>finally\<close> block runs on both paths.
\<close>

definition handleSendMessage ::
  "chat_env \<Rightarrow> chat_state \<Rightarrow> chat_world \<Rightarrow> chat_state \<times> chat_world" where
  "handleSendMessage env st w =
     (if trim (newMessage st) = [] \<or> user st = None \<or> isSendingMessage st then (st, w)
      else
        case user st of
          None \<Rightarrow> (st, w)
        | Some u \<Rightarrow>
            (let st1 = st\<lparr>isSendingMessage := True\<rparr>;
                 messageContent = trim (newMessage st);
                 st2 = st1\<lparr>newMessage := []\<rparr>;
                 mockMessage =
                   \<lparr>message_id = string_of_nat (chat_Date_now env),
                    content = messageContent,
                    sender_id = user_id u,
                    created_at = toISOString env (chat_new_Date env),
                    sender = \<lparr>sender_ident = user_id u, username = user_name u,
                               full_name = user_name u, avatar_url = None\<rparr>\<rparr>;
                 st3 = st2\<lparr>messages := messages st2 @ [mockMessage]\<rparr>
             in case scrollToBottom env w of
                  (None, w1) \<Rightarrow>
                    (st3\<lparr>isSendingMessage := False\<rparr>,
                     w1\<lparr>console := console w1 @ [[''Demo message sent:'', messageContent]]\<rparr>)
                | (Some err, w1) \<Rightarrow>
                    (st3\<lparr>error_state := Some ''Failed to send message. Please try again.'',
                         newMessage := newMessage st,
                         isSendingMessage := False\<rparr>,
                     w1\<lparr>console := console w1 @ [[''Error sending message:'', message err]]\<rparr>)))"

section \<open>Reading the log of calls\<close>

text \<open>The upload calls made to the storage service, and the waits, in order.\<close>

fun is_upload :: "event \<Rightarrow> bool" where
  "is_upload (EvUpload b p f t u) = True"
| "is_upload e = False"

definition upload_calls :: "world \<Rightarrow> nat" where
  "upload_calls w = length (filter is_upload (trace w))"

fun delays_of :: "event list \<Rightarrow> int list" where
  "delays_of [] = []"
| "delays_of (EvDelay ms # es) = ms # delays_of es"
| "delays_of (e # es) = delays_of es"

definition delays :: "world \<Rightarrow> int list" where
  "delays w = delays_of (trace w)"

text \<open>
  The waits of an exponential backoff, as the specification words them: after the failed
  attempt \<open>k\<close>, for \<open>k\<close> from 1 to \<open>n\<close>, the base delay times \<open>2 ^ (k - 1)\<close>.
\<close>

definition exponential_backoff :: "int \<Rightarrow> nat \<Rightarrow> int list" where
  "exponential_backoff base n = map (\<lambda>k. base * 2 ^ (k - 1)) [1 ..< Suc n]"

text \<open>
  What a run of the retry loop from \<open>attempt\<close> establishes, for a result \<open>r\<close> and a final
  world \<open>w'\<close>: the number of upload calls and the waits it adds, and the attempt that
  produced the result.
\<close>

definition loop_post ::
  "env \<Rightarrow> image_file \<Rightarrow> string \<Rightarrow> image_options \<Rightarrow> int \<Rightarrow> int \<Rightarrow> int \<Rightarrow> exn option \<Rightarrow> world
   \<Rightarrow> upload_result \<Rightarrow> world \<Rightarrow> bool" where
  "loop_post env file entityId options m d attempt lastError w r w' =
     (case r of
        UploadOk dat a \<Rightarrow>
          attempt \<le> a \<and> a \<le> m
          \<and> upload_calls w' = upload_calls w + nat (a - attempt + 1)
          \<and> delays w' = delays w @ replicate (nat (a - attempt)) d
          \<and> (\<exists>wl. uploadImage_try env file entityId options wl = (Inr dat, w'))
      | UploadFailed e n \<Rightarrow>
          n = m
          \<and> upload_calls w' = upload_calls w + nat (m - attempt + 1)
          \<and> delays w' = delays w @ replicate (nat (m - attempt)) d
          \<and> (if attempt \<le> m
               then \<exists>wl ex. uploadImage_try env file entityId options wl = (Inl ex, w')
                      \<and> e = ErrorObject ex
               else w' = w \<and>
                    e = (case lastError of Some x \<Rightarrow> ErrorObject x
                         | None \<Rightarrow> ErrorText ''Upload failed after multiple attempts'')))"

section \<open>The attempts of an upload as the specification words them\<close>

text \<open>
  The world a failed attempt number \<open>a\<close> leaves for the next one: the world after the
  attempt, and after the wait when the attempt is not the last of \<open>m\<close>.
\<close>

definition after_failure ::
  "env \<Rightarrow> image_file \<Rightarrow> string \<Rightarrow> image_options \<Rightarrow> int \<Rightarrow> int \<Rightarrow> int \<Rightarrow> world \<Rightarrow> world" where
  "after_failure env file entityId options m d a w =
     (if a < m
      then emit (EvDelay d) (snd (uploadImage_try env file entityId options w))
      else snd (uploadImage_try env file entityId options w))"

text \<open>
  \<open>retry_world \<dots> a w k\<close> is the world in which the attempt number \<open>a + k\<close> starts, when the
  attempt number \<open>a\<close> starts in \<open>w\<close> and the \<open>k\<close> attempts from \<open>a\<close> on have failed.
\<close>

fun retry_world ::
  "env \<Rightarrow> image_file \<Rightarrow> string \<Rightarrow> image_options \<Rightarrow> int \<Rightarrow> int \<Rightarrow> int \<Rightarrow> world \<Rightarrow> nat \<Rightarrow> world" where
  "retry_world env file entityId options m d a w 0 = w"
| "retry_world env file entityId options m d a w (Suc k) =
     retry_world env file entityId options m d (a + 1)
       (after_failure env file entityId options m d a w) k"

text \<open>The attempt number \<open>k + 1\<close> of an upload that starts in \<open>w\<close>, after \<open>k\<close> failed attempts.\<close>

definition nth_attempt ::
  "env \<Rightarrow> image_file \<Rightarrow> string \<Rightarrow> image_options \<Rightarrow> world \<Rightarrow> nat \<Rightarrow> (exn + upload_data) \<times> world" where
  "nth_attempt env file entityId options w k =
     uploadImage_try env file entityId options
       (retry_world env file entityId options
          (number_or (opt_maxRetries options) (config_maxRetries IMAGE_CONFIG))
          (number_or (opt_retryDelay options) (config_retryDelay IMAGE_CONFIG))
          1 w k)"

fun failed_attempt_outcome :: "(exn + upload_data) \<times> world \<Rightarrow> bool" where
  "failed_attempt_outcome (Inl ex, w) = True"
| "failed_attempt_outcome (Inr d, w) = False"

section \<open>The batch upload as the specification words it\<close>

text \<open>
  One upload after the other, in the order of the input, each starting in the world the
  previous one has left; one result per file.
\<close>

fun sequential_uploads ::
  "env \<Rightarrow> image_file list \<Rightarrow> string \<Rightarrow> image_options \<Rightarrow> world
   \<Rightarrow> upload_result list \<times> world" where
  "sequential_uploads env [] entityId options w = ([], w)"
| "sequential_uploads env (f # fs) entityId options w =
     (case uploadImage env f entityId options w of
        (r, w1) \<Rightarrow>
          (case sequential_uploads env fs entityId options w1 of
             (rs, w2) \<Rightarrow> (r # rs, w2)))"

text \<open>The entry a result contributes to the successful uploads, or to the failed ones.\<close>

fun successful_entry :: "upload_result \<Rightarrow> upload_data option" where
  "successful_entry (UploadOk d a) = Some d"
| "successful_entry (UploadFailed e n) = None"

fun failed_entry :: "image_file \<times> upload_result \<Rightarrow> failed_upload option" where
  "failed_entry (f, UploadOk d a) = None"
| "failed_entry (f, UploadFailed e n) =
     Some \<lparr>failed_file = file_name f, failed_error = e, failed_attempt = n\<rparr>"

section \<open>Concrete environments\<close>

text \<open>
  A storage service that accepts every upload and removal and knows every public URL, and a
  compression library that always fails.
\<close>

definition env_ok :: env where
  "env_ok =
     \<lparr>supabaseUrl = Some ''https://proj.supabase.co'',
      engine_TypeError = Exn ''TypeError'',
      imageCompression = (\<lambda>n f c. Inl (Exn ''out of memory'')),
      Date_now = (\<lambda>n. 1700000000000 + n),
      random_id = (\<lambda>n. ''abc123''),
      storage_upload = (\<lambda>n b p f. Inr None),
      storage_getPublicUrl = (\<lambda>n b p. Inr (Some (''https://cdn/'' @ p))),
      storage_remove = (\<lambda>n b ps. Inr None)\<rparr>"

text \<open>A storage service that refuses every upload.\<close>

definition env_refusing :: env where
  "env_refusing = env_ok\<lparr>storage_upload := (\<lambda>n b p f. Inr (Some (Exn ''quota exceeded'')))\<rparr>"

text \<open>A storage service that refuses the first upload call and accepts the later ones.\<close>

definition env_flaky :: env where
  "env_flaky =
     env_ok\<lparr>storage_upload :=
              (\<lambda>n b p f. if n = 0 then Inr (Some (Exn ''timeout'')) else Inr None)\<rparr>"

text \<open>A compression library that brings every file down to 1000000 bytes.\<close>

definition env_compressing :: env where
  "env_compressing =
     env_ok\<lparr>imageCompression := (\<lambda>n f c. Inr (f\<lparr>file_size := 1000000\<rparr>))\<rparr>"

text \<open>A storage service that refuses every removal.\<close>

definition env_denying :: env where
  "env_denying = env_ok\<lparr>storage_remove := (\<lambda>n b ps. Inr (Some (Exn ''access denied'')))\<rparr>"

text \<open>A storage service that cannot be reached for a removal.\<close>

definition env_offline :: env where
  "env_offline = env_ok\<lparr>storage_remove := (\<lambda>n b ps. Inl (Exn ''Failed to fetch''))\<rparr>"

text \<open>
  A server that answers every request with 404 and the body \<open>{message: 'Not found'}\<close>, a
  server that answers with 200 and \<open>{id: 7}\<close>, and a network that is down; the first has
  no session, the others the session of a signed-in user.
\<close>

definition not_found_response :: response where
  "not_found_response =
     \<lparr>resp_ok = False, resp_status = 404,
      resp_content_type = Some ''application/json; charset=utf-8'',
      resp_json = Inr (Obj [(''message'', Str ''Not found'')]),
      resp_text = Inr ''Not found''\<rparr>"

definition api_404 :: api_env where
  "api_404 =
     \<lparr>API_URL = ''https://peechey.vercel.app'',
      auth_getSession = Inr (None, None),
      fetch = (\<lambda>req. Inr not_found_response),
      JSON_parse = (\<lambda>text. Inl (Exn ''Unexpected token'')),
      JSON_stringify = (\<lambda>v. Some ''{}''),
      property_TypeError = Exn ''Cannot read properties of null'',
      localStorage_getItem = (\<lambda>key. Inr None)\<rparr>"

definition api_200 :: api_env where
  "api_200 =
     api_404\<lparr>auth_getSession := Inr (Some \<lparr>access_token = ''tok123''\<rparr>, None),
             fetch := (\<lambda>req. Inr \<lparr>resp_ok = True, resp_status = 200,
                             resp_content_type = Some ''application/json; charset=utf-8'',
                             resp_json = Inr (Obj [(''id'', Num 7)]),
                             resp_text = Inr ''{}''\<rparr>)\<rparr>"

text \<open>The server that answers with 200, for a visitor without a session.\<close>

definition api_anonymous :: api_env where
  "api_anonymous = api_200\<lparr>auth_getSession := Inr (None, None)\<rparr>"

definition api_down :: api_env where
  "api_down = api_200\<lparr>fetch := (\<lambda>req. Inl (Exn ''Failed to fetch''))\<rparr>"

text \<open>The chat page of the demo user with a message typed in, on a page that scrolls.\<close>

definition chat_env_demo :: chat_env where
  "chat_env_demo =
     \<lparr>chat_Date_now = 1700000000000, chat_new_Date = 1700000000001,
      toISOString = (\<lambda>t. ''2023-11-14T22:13:20.001Z''),
      messagesEnd_attached = True, scrollIntoView = None\<rparr>"

definition chat_state_typing :: chat_state where
  "chat_state_typing =
     \<lparr>user = Some \<lparr>user_id = ''demo-user-id'', user_name = ''Demo User''\<rparr>,
      messages = [], newMessage = '' hello '', isSendingMessage = False, error_state = None\<rparr>"

definition chat_world_idle :: chat_world where
  "chat_world_idle =
     \<lparr>http_requests = [], persistent_storage = Map.empty, console = [], scroll_calls = 0\<rparr>"

definition w_empty :: world where
  "w_empty = \<lparr>cache = Map.empty, trace = []\<rparr>"

definition w_cached :: world where
  "w_cached = \<lparr>cache = [''p/x.png'' \<mapsto> ''https://cdn/p/x.png''], trace = []\<rparr>"

definition small_png :: image_file where
  "small_png = \<lparr>file_name = ''a.png'', file_size = 100, file_type = ''image/png''\<rparr>"

definition big_png :: image_file where
  "big_png = \<lparr>file_name = ''b.png'', file_size = 3000000, file_type = ''image/png''\<rparr>"

section \<open>Verified properties\<close>

subsection \<open>Calls and waits of the service's operations\<close>

lemma compressImage_cases:
  "compressImage env file options w =
     (if of_nat (file_size file) \<le> maxSizeMB (spread IMAGE_CONFIG options) * 1024 * 1024
      then (Inr file, w)
      else (case imageCompression env (length (trace w)) file (spread IMAGE_CONFIG options) of
              Inl error \<Rightarrow> (Inr file, emit (EvCompress file) w)
            | Inr compressedFile \<Rightarrow> (Inr compressedFile, emit (EvCompress file) w)))"
  by (simp add: compressImage_def compressImage_try_def Let_def split: sum.splits)

lemma delays_of_append: "delays_of (xs @ ys) = delays_of xs @ delays_of ys"
  by (induction xs rule: delays_of.induct) simp_all

lemma emit_simps:
  "trace (emit e w) = trace w @ [e]" "cache (emit e w) = cache w"
  by (simp_all add: emit_def)

lemma upload_calls_emit:
  "upload_calls (emit e w) = (if is_upload e then Suc (upload_calls w) else upload_calls w)"
  by (simp add: upload_calls_def emit_def)

lemma delays_emit:
  "delays (emit e w) = delays w @ delays_of [e]"
  by (simp add: delays_def emit_def delays_of_append)

lemma upload_calls_cache_update [simp]: "upload_calls (w\<lparr>cache := c\<rparr>) = upload_calls w"
  by (simp add: upload_calls_def)

lemma delays_cache_update [simp]: "delays (w\<lparr>cache := c\<rparr>) = delays w"
  by (simp add: delays_def)

lemma compressImage_frame:
  "compressImage env file options w = (r, w') \<Longrightarrow>
     upload_calls w' = upload_calls w \<and> delays w' = delays w \<and> cache w' = cache w"
  by (auto simp add: compressImage_cases upload_calls_emit delays_emit emit_simps
        split: if_splits sum.splits)

lemma getPublicUrl_fallback_frame:
  "getPublicUrl_fallback env p w = (r, w') \<Longrightarrow>
     upload_calls w' = upload_calls w \<and> delays w' = delays w"
  by (auto simp add: getPublicUrl_fallback_def split: sum.splits)

lemma getPublicUrl_generate_frame:
  "getPublicUrl_generate env p w = (r, w') \<Longrightarrow>
     upload_calls w' = upload_calls w \<and> delays w' = delays w"
  by (auto simp add: getPublicUrl_generate_def Let_def upload_calls_emit delays_emit
        dest!: getPublicUrl_fallback_frame split: sum.splits option.splits if_splits)

lemma getPublicUrl_frame:
  "getPublicUrl env p w = (r, w') \<Longrightarrow>
     upload_calls w' = upload_calls w \<and> delays w' = delays w"
  by (auto simp add: getPublicUrl_def dest!: getPublicUrl_generate_frame
        split: option.splits if_splits)

lemma compressImage_Inr: "\<exists>f w'. compressImage env file options w = (Inr f, w')"
  by (simp add: compressImage_cases split: sum.splits)

lemma uploadImage_try_frame:
  assumes "uploadImage_try env file entityId options w = (r, w')"
  shows "upload_calls w' = Suc (upload_calls w) \<and> delays w' = delays w"
proof -
  obtain f w1 where c: "compressImage env file options w = (Inr f, w1)"
    using compressImage_Inr by blast
  have w1: "upload_calls w1 = upload_calls w" "delays w1 = delays w"
    using compressImage_frame [OF c] by simp_all
  show ?thesis
    using assms w1
    by (auto simp add: uploadImage_try_def c Let_def upload_calls_emit delays_emit
          dest!: getPublicUrl_frame split: sum.splits option.splits prod.splits)
qed

subsection \<open>File validation\<close>



subsection \<open>Compression\<close>

text \<open>
  C8: \<open>compressImage\<close> never fails; a file of at most \<open>maxSizeMB * 1024 * 1024\<close> bytes comes
  back as it is, with no call to the library; when the library throws, the original file
  comes back; so a result other than the input file means the file was above the limit.
  \<open>maxSizeMB\<close> is the key of \<open>options\<close>, 2 without it.
\<close>

theorem compressImage_only_oversized:
  "(\<exists>f. fst (compressImage env file options w) = Inr f)
   \<and> (of_nat (file_size file) \<le> maxSizeMB (spread IMAGE_CONFIG options) * 1024 * 1024
        \<longrightarrow> compressImage env file options w = (Inr file, w))
   \<and> (imageCompression env (length (trace w)) file (spread IMAGE_CONFIG options) = Inl error
        \<longrightarrow> fst (compressImage env file options w) = Inr file)
   \<and> (fst (compressImage env file options w) \<noteq> Inr file
        \<longrightarrow> of_nat (file_size file) > maxSizeMB (spread IMAGE_CONFIG options) * 1024 * 1024)
   \<and> maxSizeMB (spread IMAGE_CONFIG options) =
        (case opt_maxSizeMB options of None \<Rightarrow> 2 | Some v \<Rightarrow> v)"
proof -
  have 1: "\<exists>f. fst (compressImage env file options w) = Inr f"
    by (simp add: compressImage_cases split: sum.splits)
  have 2: "of_nat (file_size file) \<le> maxSizeMB (spread IMAGE_CONFIG options) * 1024 * 1024
        \<longrightarrow> compressImage env file options w = (Inr file, w)"
    by (simp add: compressImage_cases)
  have 3: "imageCompression env (length (trace w)) file (spread IMAGE_CONFIG options) = Inl error
        \<longrightarrow> fst (compressImage env file options w) = Inr file"
    by (simp add: compressImage_cases)
  have 4: "fst (compressImage env file options w) \<noteq> Inr file
        \<longrightarrow> of_nat (file_size file) > maxSizeMB (spread IMAGE_CONFIG options) * 1024 * 1024"
    by (simp add: compressImage_cases split: if_splits)
  have 5: "maxSizeMB (spread IMAGE_CONFIG options) =
        (case opt_maxSizeMB options of None \<Rightarrow> 2 | Some v \<Rightarrow> v)"
    by (simp add: spread_def IMAGE_CONFIG_def split: option.splits)
  from 1 2 3 4 5 show ?thesis by blast
qed

theorem compressImage_only_oversized_witness:
  "compressImage env_ok small_png no_options w_empty = (Inr small_png, w_empty)
   \<and> fst (compressImage env_ok big_png no_options w_empty) = Inr big_png
   \<and> fst (compressImage env_compressing big_png no_options w_empty) =
        Inr (big_png\<lparr>file_size := 1000000\<rparr>)
   \<and> of_nat (file_size big_png) > maxSizeMB (spread IMAGE_CONFIG no_options) * 1024 * 1024"
proof -
  have c: "fst (compressImage env_compressing big_png no_options w_empty) =
        Inr (big_png\<lparr>file_size := 1000000\<rparr>)"
    by (simp add: compressImage_cases env_compressing_def env_ok_def no_options_def spread_def
          IMAGE_CONFIG_def big_png_def)
  have n: "Inr (big_png\<lparr>file_size := 1000000\<rparr>) \<noteq> (Inr big_png :: exn + image_file)"
    by (simp add: big_png_def)
  have 3: "of_nat (file_size big_png) > maxSizeMB (spread IMAGE_CONFIG no_options) * 1024 * 1024"
  proof -
    have "fst (compressImage env_compressing big_png no_options w_empty) \<noteq> Inr big_png"
      using c n by simp
    then show ?thesis
      using compressImage_only_oversized
        [of env_compressing big_png no_options w_empty "Exn ''out of memory''"]
      by blast
  qed
  have 12: "compressImage env_ok small_png no_options w_empty = (Inr small_png, w_empty)
   \<and> fst (compressImage env_ok big_png no_options w_empty) = Inr big_png"
    using compressImage_only_oversized [of env_ok small_png no_options w_empty]
      compressImage_only_oversized [of env_ok big_png no_options w_empty "Exn ''out of memory''"]
    by (simp add: env_ok_def w_empty_def no_options_def spread_def IMAGE_CONFIG_def
          small_png_def big_png_def)
  from 12 c 3 show ?thesis by simp
qed

subsection \<open>The retry loop of \<open>uploadImage\<close>\<close>

lemma uploadImage_loop_post:
  "uploadImage_loop env img entityId options m d attempt lastError w = (r, w')
   \<Longrightarrow> loop_post env img entityId options m d attempt lastError w r w'"
proof (induction env img entityId options m d attempt lastError w arbitrary: r w'
       rule: uploadImage_loop.induct)
  case (1 env img entityId options m d attempt lastError w)
  show ?case
  proof (cases "attempt \<le> m")
    case False
    with "1.prems" show ?thesis
      by (auto simp add: uploadImage_loop.simps loop_post_def)
  next
    case True
    obtain x w1 where t: "uploadImage_try env img entityId options w = (x, w1)"
      by (cases "uploadImage_try env img entityId options w")
    have fr: "upload_calls w1 = Suc (upload_calls w)" "delays w1 = delays w"
      using uploadImage_try_frame [OF t] by simp_all
    show ?thesis
    proof (cases x)
      case (Inr dat)
      with "1.prems" True t have "r = UploadOk dat attempt" "w' = w1"
        by (simp_all add: uploadImage_loop.simps)
      with t Inr fr show ?thesis
        using True by (auto simp add: loop_post_def)
    next
      case (Inl error)
      let ?w2 = "if attempt < m then emit (EvDelay d) w1 else w1"
      have rec: "uploadImage_loop env img entityId options m d (attempt + 1) (Some error) ?w2 = (r, w')"
        using "1.prems" True t Inl by (simp add: uploadImage_loop.simps)
      have ih: "loop_post env img entityId options m d (attempt + 1) (Some error) ?w2 r w'"
        using "1.IH" [OF True t [symmetric] Inl rec] .
      have w2: "upload_calls ?w2 = Suc (upload_calls w)"
        "delays ?w2 = delays w @ (if attempt < m then [d] else [])"
        using fr by (simp_all add: upload_calls_emit delays_emit)
      show ?thesis
      proof (cases "attempt < m")
        case lt: True
        have n1: "nat (m - attempt) = Suc (nat (m - (attempt + 1)))" using lt by simp
        have n2: "\<And>a. attempt + 1 \<le> a \<Longrightarrow> nat (a - attempt) = Suc (nat (a - (attempt + 1)))"
          by simp
        show ?thesis
          using ih w2 lt True
          by (cases r) (auto simp add: loop_post_def n1 n2 replicate_app_Cons_same nat_add_distrib)
      next
        case ge: False
        then have eq: "attempt = m" using True by simp
        have r: "r = UploadFailed (ErrorObject error) m" "w' = w1"
          using rec ge eq by (simp_all add: uploadImage_loop.simps)
        show ?thesis
          using r fr t Inl eq by (auto simp add: loop_post_def)
      qed
    qed
  qed
qed

lemma uploadImage_post:
  assumes "uploadImage env img entityId options w = (r, w')"
  shows "loop_post env img entityId options
           (number_or (opt_maxRetries options) (config_maxRetries IMAGE_CONFIG))
           (number_or (opt_retryDelay options) (config_retryDelay IMAGE_CONFIG))
           1 None w r w'"
proof -
  have "uploadImage_loop env img entityId options
           (number_or (opt_maxRetries options) (config_maxRetries IMAGE_CONFIG))
           (number_or (opt_retryDelay options) (config_retryDelay IMAGE_CONFIG))
           1 None w = (r, w')"
    using assms by (simp add: uploadImage_def Let_def)
  then show ?thesis by (rule uploadImage_loop_post)
qed

text \<open>
  The attempts of a run of the loop: those before a success have failed, a failure means
  that all have failed, and the first success ends the loop.
\<close>

lemma loop_attempts:
  "uploadImage_loop env img entityId options m d a lastError w = (r, w') \<Longrightarrow>
     (case r of
        UploadOk dat b \<Rightarrow>
          a \<le> b \<and> b \<le> m
          \<and> uploadImage_try env img entityId options
                (retry_world env img entityId options m d a w (nat (b - a))) = (Inr dat, w')
          \<and> (\<forall>k < nat (b - a). failed_attempt_outcome
                 (uploadImage_try env img entityId options
                    (retry_world env img entityId options m d a w k)))
      | UploadFailed e n \<Rightarrow>
          (\<forall>k < nat (m - a + 1). failed_attempt_outcome
                 (uploadImage_try env img entityId options
                    (retry_world env img entityId options m d a w k))))"
proof (induction env img entityId options m d a lastError w arbitrary: r w'
       rule: uploadImage_loop.induct)
  case (1 env img entityId options m d a lastError w)
  show ?case
  proof (cases "a \<le> m")
    case False
    with "1.prems" show ?thesis
      by (auto simp add: uploadImage_loop.simps)
  next
    case True
    obtain x w1 where t: "uploadImage_try env img entityId options w = (x, w1)"
      by (cases "uploadImage_try env img entityId options w")
    show ?thesis
    proof (cases x)
      case (Inr dat)
      with "1.prems" True t have "r = UploadOk dat a" "w' = w1"
        by (simp_all add: uploadImage_loop.simps)
      with t Inr True show ?thesis by simp
    next
      case (Inl error)
      let ?w2 = "after_failure env img entityId options m d a w"
      have w2: "(if a < m then emit (EvDelay d) w1 else w1) = ?w2"
        by (simp add: after_failure_def t)
      have rec0: "uploadImage_loop env img entityId options m d (a + 1) (Some error)
                   (if a < m then emit (EvDelay d) w1 else w1) = (r, w')"
        using "1.prems" True t Inl by (simp add: uploadImage_loop.simps)
      note ih0 = "1.IH" [OF True t [symmetric] Inl rec0]
      note ih = ih0 [unfolded w2]
      have f0: "failed_attempt_outcome (uploadImage_try env img entityId options w)"
        by (simp add: t Inl)
      show ?thesis
      proof (cases r)
        case (UploadOk dat b)
        with ih have b: "a + 1 \<le> b" "b \<le> m"
          and s: "uploadImage_try env img entityId options
                (retry_world env img entityId options m d (a + 1) ?w2 (nat (b - (a + 1)))) = (Inr dat, w')"
          and f: "\<forall>k < nat (b - (a + 1)). failed_attempt_outcome
                 (uploadImage_try env img entityId options
                    (retry_world env img entityId options m d (a + 1) ?w2 k))"
          by simp_all
        have n: "nat (b - a) = Suc (nat (b - (a + 1)))" using b by simp
        have all: "\<forall>k < nat (b - a). failed_attempt_outcome
                 (uploadImage_try env img entityId options
                    (retry_world env img entityId options m d a w k))"
        proof (intro allI impI)
          fix k assume "k < nat (b - a)"
          then show "failed_attempt_outcome
                 (uploadImage_try env img entityId options
                    (retry_world env img entityId options m d a w k))"
            using f f0 n by (cases k) simp_all
        qed
        have "uploadImage_try env img entityId options
                (retry_world env img entityId options m d a w (nat (b - a))) = (Inr dat, w')"
          using s by (simp add: n)
        with UploadOk b all show ?thesis by simp
      next
        case (UploadFailed e n)
        with ih have f: "\<forall>k < nat (m - (a + 1) + 1). failed_attempt_outcome
                 (uploadImage_try env img entityId options
                    (retry_world env img entityId options m d (a + 1) ?w2 k))"
          by simp
        have n: "nat (m - a + 1) = Suc (nat (m - (a + 1) + 1))" using True by simp
        have all: "\<forall>k < nat (m - a + 1). failed_attempt_outcome
                 (uploadImage_try env img entityId options
                    (retry_world env img entityId options m d a w k))"
        proof (intro allI impI)
          fix k assume "k < nat (m - a + 1)"
          then show "failed_attempt_outcome
                 (uploadImage_try env img entityId options
                    (retry_world env img entityId options m d a w k))"
            using f f0 n by (cases k) simp_all
        qed
        with UploadFailed show ?thesis by simp
      qed
    qed
  qed
qed

lemma loop_first_success:
  "a + int k \<le> m \<Longrightarrow>
   \<forall>j < k. failed_attempt_outcome
      (uploadImage_try env img entityId options (retry_world env img entityId options m d a w j)) \<Longrightarrow>
   uploadImage_try env img entityId options (retry_world env img entityId options m d a w k)
     = (Inr dat, w1) \<Longrightarrow>
   uploadImage_loop env img entityId options m d a lastError w = (UploadOk dat (a + int k), w1)"
proof (induction k arbitrary: a w lastError)
  case 0
  then show ?case by (simp add: uploadImage_loop.simps)
next
  case (Suc k)
  from Suc.prems(2) have f0: "failed_attempt_outcome (uploadImage_try env img entityId options w)"
    by (metis retry_world.simps(1) zero_less_Suc)
  then obtain ex w2 where t: "uploadImage_try env img entityId options w = (Inl ex, w2)"
    by (cases "uploadImage_try env img entityId options w" rule: failed_attempt_outcome.cases) auto
  let ?w = "after_failure env img entityId options m d a w"
  have w: "?w = (if a < m then emit (EvDelay d) w2 else w2)"
    by (simp add: after_failure_def t)
  have le: "a \<le> m" "(a + 1) + int k \<le> m" using Suc.prems(1) by simp_all
  have fs: "\<forall>j < k. failed_attempt_outcome
      (uploadImage_try env img entityId options (retry_world env img entityId options m d (a + 1) ?w j))"
    using Suc.prems(2) by (metis Suc_less_eq retry_world.simps(2))
  have s: "uploadImage_try env img entityId options
      (retry_world env img entityId options m d (a + 1) ?w k) = (Inr dat, w1)"
    using Suc.prems(3) by simp
  have "uploadImage_loop env img entityId options m d (a + 1) (Some ex) ?w
          = (UploadOk dat ((a + 1) + int k), w1)"
    by (rule Suc.IH [OF le(2) fs s])
  then show ?case
    using le(1) t w by (simp add: uploadImage_loop.simps add.assoc add.commute)
qed

subsection \<open>Runs in the concrete environments\<close>

lemma compress_small:
  "compressImage env small_png no_options w = (Inr small_png, w)"
  by (simp add: compressImage_cases small_png_def no_options_def spread_def IMAGE_CONFIG_def)

lemma try_refusing:
  "uploadImage_try env_refusing small_png e no_options w =
     (Inl (Exn ''quota exceeded''),
      emit (EvUpload bucket (generateFilename env_refusing (length (trace w)) (file_name small_png) e)
              small_png (file_type small_png) False) w)"
  by (simp add: uploadImage_try_def compress_small Let_def env_refusing_def)

lemma no_options_simps:
  "opt_maxRetries no_options = None" "opt_retryDelay no_options = None"
  "opt_maxSizeMB no_options = None"
  by (simp_all add: no_options_def)

lemma refusing_run:
  "uploadImage env_refusing small_png e no_options w =
     (UploadFailed (ErrorObject (Exn ''quota exceeded'')) 3,
      snd (uploadImage env_refusing small_png e no_options w))"
  by (simp add: uploadImage_def Let_def number_or_def no_options_simps IMAGE_CONFIG_def
        uploadImage_loop.simps try_refusing)

lemma refusing_run_delays:
  "delays (snd (uploadImage env_refusing small_png e no_options w)) = delays w @ [1000, 1000]"
  by (simp add: uploadImage_def Let_def number_or_def no_options_simps IMAGE_CONFIG_def
        uploadImage_loop.simps try_refusing delays_emit)

lemma refusing_run_calls:
  "upload_calls (snd (uploadImage env_refusing small_png e no_options w)) = upload_calls w + 3"
  by (simp add: uploadImage_def Let_def number_or_def no_options_simps IMAGE_CONFIG_def
        uploadImage_loop.simps try_refusing upload_calls_emit)

lemma w_empty_simps:
  "trace w_empty = []" "cache w_empty p = None" "upload_calls w_empty = 0" "delays w_empty = []"
  by (simp_all add: w_empty_def upload_calls_def delays_def)

lemma flaky_run:
  "\<exists>d w'. uploadImage env_flaky small_png e no_options w_empty = (UploadOk d 2, w')"
  by (simp add: uploadImage_def Let_def number_or_def no_options_simps IMAGE_CONFIG_def
        uploadImage_loop.simps uploadImage_try_def compress_small env_flaky_def env_ok_def
        w_empty_simps emit_simps getPublicUrl_def getPublicUrl_generate_def)

lemma try_flaky_first:
  "uploadImage_try env_flaky small_png e no_options w_empty =
     (Inl (Exn ''timeout''),
      emit (EvUpload bucket (generateFilename env_flaky 0 (file_name small_png) e)
              small_png (file_type small_png) False) w_empty)"
  by (simp add: uploadImage_try_def compress_small Let_def env_flaky_def env_ok_def w_empty_simps)

lemma try_ok_first:
  "\<exists>d w1. uploadImage_try env_ok small_png e no_options w_empty = (Inr d, w1)"
  by (simp add: uploadImage_try_def compress_small Let_def env_ok_def w_empty_simps emit_simps
        getPublicUrl_def getPublicUrl_generate_def)

lemma exponential_backoff_2: "exponential_backoff 1000 2 = [1000, 2000]"
  by code_simp

text \<open>
  C3: \<open>uploadImage\<close> makes at most \<open>maxRetries\<close> upload calls (\<open>options.maxRetries\<close>, 3
  without it). It returns at the first attempt that succeeds: a successful result carries
  the number of that attempt, every attempt before it has failed, and the number of upload
  calls made is that number, so nothing is tried after it; conversely, when the attempt
  number \<open>k + 1 \<le> maxRetries\<close> succeeds after \<open>k\<close> failed attempts, the result is the success
  of that attempt. A failed result comes after \<open>maxRetries\<close> attempts that have all failed,
  carries \<open>attempts = maxRetries\<close> and the exception of the last attempt; and when all
  \<open>maxRetries\<close> attempts fail, the result is a failure.
\<close>

theorem uploadImage_bounded_retries:
  assumes "uploadImage env img entityId options w = (r, w')"
  shows "upload_calls w' \<le> upload_calls w
           + nat (number_or (opt_maxRetries options) (config_maxRetries IMAGE_CONFIG))
     \<and> (\<forall>d a. r = UploadOk d a \<longrightarrow>
           1 \<le> a \<and> a \<le> number_or (opt_maxRetries options) (config_maxRetries IMAGE_CONFIG)
           \<and> upload_calls w' = upload_calls w + nat a
           \<and> (\<exists>wl. uploadImage_try env img entityId options wl = (Inr d, w'))
           \<and> nth_attempt env img entityId options w (nat (a - 1)) = (Inr d, w')
           \<and> (\<forall>k < nat (a - 1).
                 failed_attempt_outcome (nth_attempt env img entityId options w k)))
     \<and> (\<forall>e n. r = UploadFailed e n \<longrightarrow>
           n = number_or (opt_maxRetries options) (config_maxRetries IMAGE_CONFIG)
           \<and> upload_calls w' = upload_calls w + nat n
           \<and> (\<forall>k < nat n. failed_attempt_outcome (nth_attempt env img entityId options w k))
           \<and> (0 < n \<longrightarrow>
                (\<exists>wl ex. uploadImage_try env img entityId options wl = (Inl ex, w')
                   \<and> e = ErrorObject ex)))
     \<and> (\<forall>k d w1.
           int k < number_or (opt_maxRetries options) (config_maxRetries IMAGE_CONFIG)
           \<and> (\<forall>j < k. failed_attempt_outcome (nth_attempt env img entityId options w j))
           \<and> nth_attempt env img entityId options w k = (Inr d, w1)
           \<longrightarrow> r = UploadOk d (int k + 1) \<and> w' = w1)
     \<and> ((\<forall>k. int k < number_or (opt_maxRetries options) (config_maxRetries IMAGE_CONFIG)
              \<longrightarrow> failed_attempt_outcome (nth_attempt env img entityId options w k))
          \<longrightarrow> (\<exists>e. r = UploadFailed e
                        (number_or (opt_maxRetries options) (config_maxRetries IMAGE_CONFIG))))
     \<and> number_or None (config_maxRetries IMAGE_CONFIG) = 3"
proof -
  let ?m = "number_or (opt_maxRetries options) (config_maxRetries IMAGE_CONFIG)"
  let ?d = "number_or (opt_retryDelay options) (config_retryDelay IMAGE_CONFIG)"
  note post = uploadImage_post [OF assms]
  have run: "uploadImage_loop env img entityId options ?m ?d 1 None w = (r, w')"
    using assms by (simp add: uploadImage_def Let_def)
  note att = loop_attempts [OF run]
  have d: "number_or None (config_maxRetries IMAGE_CONFIG) = 3"
    by (simp add: number_or_def IMAGE_CONFIG_def)
  have ok: "\<forall>d a. r = UploadOk d a \<longrightarrow>
           1 \<le> a \<and> a \<le> ?m
           \<and> upload_calls w' = upload_calls w + nat a
           \<and> (\<exists>wl. uploadImage_try env img entityId options wl = (Inr d, w'))
           \<and> nth_attempt env img entityId options w (nat (a - 1)) = (Inr d, w')
           \<and> (\<forall>k < nat (a - 1).
                 failed_attempt_outcome (nth_attempt env img entityId options w k))"
  proof (intro allI impI)
    fix dat a assume r: "r = UploadOk dat a"
    with post have "1 \<le> a" "a \<le> ?m" "upload_calls w' = upload_calls w + nat a"
      "\<exists>wl. uploadImage_try env img entityId options wl = (Inr dat, w')"
      by (simp_all add: loop_post_def)
    moreover from att r have "nth_attempt env img entityId options w (nat (a - 1)) = (Inr dat, w')"
      "\<forall>k < nat (a - 1). failed_attempt_outcome (nth_attempt env img entityId options w k)"
      by (simp_all add: nth_attempt_def)
    ultimately show "1 \<le> a \<and> a \<le> ?m
           \<and> upload_calls w' = upload_calls w + nat a
           \<and> (\<exists>wl. uploadImage_try env img entityId options wl = (Inr dat, w'))
           \<and> nth_attempt env img entityId options w (nat (a - 1)) = (Inr dat, w')
           \<and> (\<forall>k < nat (a - 1).
                 failed_attempt_outcome (nth_attempt env img entityId options w k))"
      by blast
  qed
  have failed: "\<forall>e n. r = UploadFailed e n \<longrightarrow>
           n = ?m
           \<and> upload_calls w' = upload_calls w + nat n
           \<and> (\<forall>k < nat n. failed_attempt_outcome (nth_attempt env img entityId options w k))
           \<and> (0 < n \<longrightarrow>
                (\<exists>wl ex. uploadImage_try env img entityId options wl = (Inl ex, w')
                   \<and> e = ErrorObject ex))"
  proof (intro allI impI)
    fix e n assume r: "r = UploadFailed e n"
    with post have "n = ?m" "upload_calls w' = upload_calls w + nat ?m"
      "0 < ?m \<longrightarrow> (\<exists>wl ex. uploadImage_try env img entityId options wl = (Inl ex, w')
                   \<and> e = ErrorObject ex)"
      by (auto simp add: loop_post_def split: if_splits)
    moreover from att r
    have "\<forall>k < nat ?m. failed_attempt_outcome (nth_attempt env img entityId options w k)"
      by (simp add: nth_attempt_def)
    ultimately show "n = ?m
           \<and> upload_calls w' = upload_calls w + nat n
           \<and> (\<forall>k < nat n. failed_attempt_outcome (nth_attempt env img entityId options w k))
           \<and> (0 < n \<longrightarrow>
                (\<exists>wl ex. uploadImage_try env img entityId options wl = (Inl ex, w')
                   \<and> e = ErrorObject ex))"
      by simp
  qed
  have bound: "upload_calls w' \<le> upload_calls w + nat ?m"
  proof (cases r)
    case (UploadOk dat a)
    with ok show ?thesis by auto
  next
    case (UploadFailed e n)
    with failed show ?thesis by auto
  qed
  have first: "\<forall>k d w1.
           int k < ?m
           \<and> (\<forall>j < k. failed_attempt_outcome (nth_attempt env img entityId options w j))
           \<and> nth_attempt env img entityId options w k = (Inr d, w1)
           \<longrightarrow> r = UploadOk d (int k + 1) \<and> w' = w1"
  proof (intro allI impI)
    fix k dat w1
    assume a: "int k < ?m
           \<and> (\<forall>j < k. failed_attempt_outcome (nth_attempt env img entityId options w j))
           \<and> nth_attempt env img entityId options w k = (Inr dat, w1)"
    then have le: "1 + int k \<le> ?m" by simp
    from a have fs: "\<forall>j < k. failed_attempt_outcome
        (uploadImage_try env img entityId options
           (retry_world env img entityId options ?m ?d 1 w j))"
      by (simp add: nth_attempt_def)
    from a have s: "uploadImage_try env img entityId options
           (retry_world env img entityId options ?m ?d 1 w k) = (Inr dat, w1)"
      by (simp add: nth_attempt_def)
    have "uploadImage_loop env img entityId options ?m ?d 1 None w = (UploadOk dat (1 + int k), w1)"
      by (rule loop_first_success [OF le fs s])
    with run show "r = UploadOk dat (int k + 1) \<and> w' = w1"
      by (simp add: add.commute)
  qed
  have allfail: "(\<forall>k. int k < ?m
              \<longrightarrow> failed_attempt_outcome (nth_attempt env img entityId options w k))
          \<longrightarrow> (\<exists>e. r = UploadFailed e ?m)"
  proof
    assume all: "\<forall>k. int k < ?m
              \<longrightarrow> failed_attempt_outcome (nth_attempt env img entityId options w k)"
    show "\<exists>e. r = UploadFailed e ?m"
    proof (cases r)
      case (UploadOk dat a)
      with ok have a: "1 \<le> a" "a \<le> ?m"
        and s: "nth_attempt env img entityId options w (nat (a - 1)) = (Inr dat, w')"
        by simp_all
      from a have "int (nat (a - 1)) < ?m" by simp
      with all have "failed_attempt_outcome (nth_attempt env img entityId options w (nat (a - 1)))"
        by blast
      with s show ?thesis by simp
    next
      case (UploadFailed e n)
      with failed show ?thesis by simp
    qed
  qed
  from bound ok failed first allfail d show ?thesis by (intro conjI)
qed

theorem uploadImage_bounded_retries_witness:
  "(\<exists>d w'. uploadImage env_flaky small_png ''p1'' no_options w_empty = (UploadOk d 2, w')
           \<and> upload_calls w' = 2
           \<and> nth_attempt env_flaky small_png ''p1'' no_options w_empty 1 = (Inr d, w'))
   \<and> fst (nth_attempt env_flaky small_png ''p1'' no_options w_empty 0) = Inl (Exn ''timeout'')
   \<and> (\<exists>w'. uploadImage env_refusing small_png ''p1'' no_options w_empty =
              (UploadFailed (ErrorObject (Exn ''quota exceeded'')) 3, w')
           \<and> upload_calls w' = 3)
   \<and> failed_attempt_outcome (nth_attempt env_refusing small_png ''p1'' no_options w_empty 2)
   \<and> (\<exists>d w'. nth_attempt env_ok small_png ''p1'' no_options w_empty 0 = (Inr d, w')
           \<and> uploadImage env_ok small_png ''p1'' no_options w_empty = (UploadOk d 1, w')
           \<and> upload_calls w' = 1)"
proof -
  have m: "number_or (opt_maxRetries no_options) (config_maxRetries IMAGE_CONFIG) = 3"
    by (simp add: number_or_def no_options_simps IMAGE_CONFIG_def)
  obtain d w1 where f: "uploadImage env_flaky small_png ''p1'' no_options w_empty = (UploadOk d 2, w1)"
    using flaky_run by blast
  note okf = uploadImage_bounded_retries
    [OF f, THEN conjunct2, THEN conjunct1, rule_format, OF refl]
  from okf have c1: "upload_calls w1 = upload_calls w_empty + nat 2"
    and n1: "nth_attempt env_flaky small_png ''p1'' no_options w_empty (nat (2 - 1)) = (Inr d, w1)"
    by blast+
  from c1 have c1': "upload_calls w1 = 2" by (simp add: w_empty_simps)
  from n1 have n1': "nth_attempt env_flaky small_png ''p1'' no_options w_empty 1 = (Inr d, w1)"
    by simp
  from f c1' n1' have 1: "\<exists>d w'. uploadImage env_flaky small_png ''p1'' no_options w_empty = (UploadOk d 2, w')
           \<and> upload_calls w' = 2
           \<and> nth_attempt env_flaky small_png ''p1'' no_options w_empty 1 = (Inr d, w')" by blast
  have 2: "fst (nth_attempt env_flaky small_png ''p1'' no_options w_empty 0) = Inl (Exn ''timeout'')"
    by (simp add: nth_attempt_def try_flaky_first)
  obtain wr where r: "uploadImage env_refusing small_png ''p1'' no_options w_empty =
      (UploadFailed (ErrorObject (Exn ''quota exceeded'')) 3, wr)"
    using refusing_run [of "''p1''" w_empty] by blast
  note fr = uploadImage_bounded_retries
    [OF r, THEN conjunct2, THEN conjunct2, THEN conjunct1, rule_format, OF refl]
  from fr have c3: "upload_calls wr = upload_calls w_empty + nat 3"
    and a3: "\<forall>k < nat 3. failed_attempt_outcome
               (nth_attempt env_refusing small_png ''p1'' no_options w_empty k)"
    by blast+
  from c3 have c3': "upload_calls wr = 3" by (simp add: w_empty_simps)
  from a3 [rule_format, of 2]
  have 4: "failed_attempt_outcome (nth_attempt env_refusing small_png ''p1'' no_options w_empty 2)"
    by simp
  from r c3' have 3: "\<exists>w'. uploadImage env_refusing small_png ''p1'' no_options w_empty =
              (UploadFailed (ErrorObject (Exn ''quota exceeded'')) 3, w')
           \<and> upload_calls w' = 3" by blast
  obtain d0 w0 where t: "uploadImage_try env_ok small_png ''p1'' no_options w_empty = (Inr d0, w0)"
    using try_ok_first by blast
  then have n0: "nth_attempt env_ok small_png ''p1'' no_options w_empty 0 = (Inr d0, w0)"
    by (simp add: nth_attempt_def)
  obtain r0 w0' where u: "uploadImage env_ok small_png ''p1'' no_options w_empty = (r0, w0')"
    by (cases "uploadImage env_ok small_png ''p1'' no_options w_empty")
  note first = uploadImage_bounded_retries
    [OF u, THEN conjunct2, THEN conjunct2, THEN conjunct2, THEN conjunct1, rule_format,
     of 0 d0 w0]
  have e: "r0 = UploadOk d0 (int 0 + 1) \<and> w0' = w0"
    by (rule first) (simp add: m n0)
  then have u': "uploadImage env_ok small_png ''p1'' no_options w_empty = (UploadOk d0 1, w0)"
    using u by simp
  note ok0 = uploadImage_bounded_retries
    [OF u', THEN conjunct2, THEN conjunct1, rule_format, OF refl]
  from ok0 have "upload_calls w0 = upload_calls w_empty + nat 1" by blast
  then have c0: "upload_calls w0 = 1" by (simp add: w_empty_simps)
  from n0 u' c0 have 5: "\<exists>d w'. nth_attempt env_ok small_png ''p1'' no_options w_empty 0 = (Inr d, w')
           \<and> uploadImage env_ok small_png ''p1'' no_options w_empty = (UploadOk d 1, w')
           \<and> upload_calls w' = 1" by blast
  from 1 2 3 4 5 show ?thesis by (intro conjI)
qed

text \<open>
  C1, as the code has it: the wait before each retry is the base delay itself
  (\<open>options.retryDelay\<close>, 1000 ms without it), whatever the number of the attempt; there is
  one wait after every failed attempt but the last, and the loop gives up after \<open>maxRetries\<close>
  attempts.
\<close>

theorem uploadImage_constant_delay:
  assumes "uploadImage env img entityId options w = (r, w')"
  shows "(\<forall>d a. r = UploadOk d a \<longrightarrow>
            delays w' = delays w @ replicate (nat (a - 1))
               (number_or (opt_retryDelay options) (config_retryDelay IMAGE_CONFIG)))
     \<and> (\<forall>e n. r = UploadFailed e n \<longrightarrow>
            n = number_or (opt_maxRetries options) (config_maxRetries IMAGE_CONFIG)
            \<and> delays w' = delays w @ replicate (nat (n - 1))
               (number_or (opt_retryDelay options) (config_retryDelay IMAGE_CONFIG)))
     \<and> number_or None (config_retryDelay IMAGE_CONFIG) = 1000"
proof -
  note post = uploadImage_post [OF assms]
  have d: "number_or None (config_retryDelay IMAGE_CONFIG) = 1000"
    by (simp add: number_or_def IMAGE_CONFIG_def)
  show ?thesis
    using post d by (cases r) (auto simp add: loop_post_def)
qed

theorem uploadImage_constant_delay_witness:
  "(\<exists>d w'. uploadImage env_flaky small_png ''p1'' no_options w_empty = (UploadOk d 2, w')
           \<and> delays w' = [1000])
   \<and> (\<exists>w'. uploadImage env_refusing small_png ''p1'' no_options w_empty =
              (UploadFailed (ErrorObject (Exn ''quota exceeded'')) 3, w')
           \<and> delays w' = [1000, 1000])"
proof -
  have n: "number_or (opt_retryDelay no_options) (config_retryDelay IMAGE_CONFIG) = 1000"
    by (simp add: number_or_def no_options_simps IMAGE_CONFIG_def)
  obtain d w1 where f: "uploadImage env_flaky small_png ''p1'' no_options w_empty = (UploadOk d 2, w1)"
    using flaky_run by blast
  have "delays w1 = [1000]"
    using uploadImage_constant_delay [OF f] by (simp add: w_empty_simps n)
  with f have 1: "\<exists>d w'. uploadImage env_flaky small_png ''p1'' no_options w_empty = (UploadOk d 2, w')
           \<and> delays w' = [1000]" by blast
  note r = refusing_run [of "''p1''" w_empty]
  have "delays (snd (uploadImage env_refusing small_png ''p1'' no_options w_empty)) = [1000, 1000]"
    using uploadImage_constant_delay [OF r] by (simp add: w_empty_simps n numeral_eq_Suc)
  with r have 2: "\<exists>w'. uploadImage env_refusing small_png ''p1'' no_options w_empty =
              (UploadFailed (ErrorObject (Exn ''quota exceeded'')) 3, w')
           \<and> delays w' = [1000, 1000]" by blast
  from 1 2 show ?thesis by blast
qed

text \<open>
  C1 as stated fails: with the default options and a storage service that refuses every
  upload, the two waits are 1000 ms and 1000 ms, where an exponential backoff waits 1000 ms
  and 2000 ms.
\<close>

theorem uploadImage_backoff_counterexample:
  "fst (uploadImage env_refusing small_png ''p1'' no_options w_empty) =
     UploadFailed (ErrorObject (Exn ''quota exceeded'')) 3
   \<and> delays (snd (uploadImage env_refusing small_png ''p1'' no_options w_empty)) = [1000, 1000]
   \<and> exponential_backoff (config_retryDelay IMAGE_CONFIG) 2 = [1000, 2000]
   \<and> delays (snd (uploadImage env_refusing small_png ''p1'' no_options w_empty))
       \<noteq> exponential_backoff (config_retryDelay IMAGE_CONFIG) 2"
proof -
  have r: "fst (uploadImage env_refusing small_png ''p1'' no_options w_empty) =
     UploadFailed (ErrorObject (Exn ''quota exceeded'')) 3"
    using refusing_run [of "''p1''" w_empty] by (metis fst_conv)
  have d: "delays (snd (uploadImage env_refusing small_png ''p1'' no_options w_empty)) = [1000, 1000]"
  proof -
    have "delays w_empty = []" by (simp add: delays_def w_empty_def)
    then show ?thesis by (simp add: refusing_run_delays)
  qed
  show ?thesis
    by (simp add: r d exponential_backoff_2 IMAGE_CONFIG_def)
qed

subsection \<open>The waits of \<open>retryUpload\<close>\<close>

lemma sleeps_append: "sleeps (xs @ ys) = sleeps xs @ sleeps ys"
  by (induction xs rule: sleeps.induct) simp_all

lemma retryUpload_loop_sleeps:
  "retryUpload_loop f te m d attempt lastError events = (r, events') \<Longrightarrow> 1 \<le> attempt \<Longrightarrow>
     \<exists>n. nat (attempt - 1) + n \<le> max (nat m) (nat (attempt - 1))
        \<and> sleeps events' =
            sleeps events @ map (\<lambda>k. d * 2 ^ (k - 1)) [nat attempt ..< nat attempt + n]"
proof (induction f te m d attempt lastError events arbitrary: r events'
       rule: retryUpload_loop.induct)
  case (1 f te m d attempt lastError events)
  show ?case
  proof (cases "attempt \<le> m")
    case False
    with "1.prems" have "events' = events"
      by (simp add: retryUpload_loop.simps)
    then show ?thesis by (intro exI [of _ 0]) simp
  next
    case True
    let ?ev = "events @ [Called, Slept (d * 2 ^ nat (attempt - 1))]"
    let ?G = "\<exists>n. nat (attempt - 1) + n \<le> max (nat m) (nat (attempt - 1))
        \<and> sleeps events' =
            sleeps events @ map (\<lambda>k. d * 2 ^ (k - 1)) [nat attempt ..< nat attempt + n]"
    have step: "\<And>le. retryUpload_loop f te m d (attempt + 1) le ?ev = (r, events') \<Longrightarrow>
        (\<And>r events'. retryUpload_loop f te m d (attempt + 1) le ?ev = (r, events') \<Longrightarrow>
            1 \<le> attempt + 1 \<Longrightarrow>
            \<exists>n. nat (attempt + 1 - 1) + n \<le> max (nat m) (nat (attempt + 1 - 1))
              \<and> sleeps events' = sleeps ?ev @ map (\<lambda>k. d * 2 ^ (k - 1)) [nat (attempt + 1) ..< nat (attempt + 1) + n])
        \<Longrightarrow> ?G"
    proof -
      fix le
      assume run: "retryUpload_loop f te m d (attempt + 1) le ?ev = (r, events')"
        and ih: "\<And>r events'. retryUpload_loop f te m d (attempt + 1) le ?ev = (r, events') \<Longrightarrow>
            1 \<le> attempt + 1 \<Longrightarrow>
            \<exists>n. nat (attempt + 1 - 1) + n \<le> max (nat m) (nat (attempt + 1 - 1))
              \<and> sleeps events' = sleeps ?ev @ map (\<lambda>k. d * 2 ^ (k - 1)) [nat (attempt + 1) ..< nat (attempt + 1) + n]"
      from ih [OF run] "1.prems"(2) obtain n where
        n: "nat attempt + n \<le> max (nat m) (nat attempt)"
        and s: "sleeps events' = sleeps ?ev @ map (\<lambda>k. d * 2 ^ (k - 1)) [nat (attempt + 1) ..< nat (attempt + 1) + n]"
        by auto
      have a: "nat (attempt + 1) = Suc (nat attempt)" "nat (attempt - 1) = nat attempt - 1"
        using "1.prems"(2) by simp_all
      have up: "[nat attempt ..< nat attempt + Suc n] = nat attempt # [Suc (nat attempt) ..< Suc (nat attempt) + n]"
        by (simp add: upt_conv_Cons)
      have "nat (attempt - 1) + Suc n \<le> max (nat m) (nat (attempt - 1))"
        using n True "1.prems"(2) by simp
      moreover have "sleeps events' = sleeps events @ map (\<lambda>k. d * 2 ^ (k - 1)) [nat attempt ..< nat attempt + Suc n]"
        using s by (simp only: up a) (simp add: sleeps_append)
      ultimately show ?G by blast
    qed
    show ?thesis
    proof (cases "f (length events)")
      case (Inl error)
      have run: "retryUpload_loop f te m d (attempt + 1) (Thrown error) ?ev = (r, events')"
        using "1.prems"(1) True Inl by (simp add: retryUpload_loop.simps)
      show ?thesis
        by (rule step [OF run]) (rule "1.IH"(1) [OF True Inl], assumption+)
    next
      case (Inr result)
      show ?thesis
      proof (cases "fn_success result")
        case True
        with "1.prems"(1) \<open>attempt \<le> m\<close> Inr have "events' = events @ [Called]"
          by (simp add: retryUpload_loop.simps)
        then show ?thesis by (intro exI [of _ 0]) (simp add: sleeps_append)
      next
        case False
        show ?thesis
        proof (cases "is_validation_error te (fn_error result)")
          case (Inl error)
          have run: "retryUpload_loop f te m d (attempt + 1) (Thrown error) ?ev = (r, events')"
            using "1.prems"(1) True Inr False Inl by (simp add: retryUpload_loop.simps)
          show ?thesis
            by (rule step [OF run]) (rule "1.IH"(2) [OF True Inr False Inl], assumption+)
        next
          case v: (Inr b)
          show ?thesis
          proof (cases b)
            case True
            with "1.prems"(1) \<open>attempt \<le> m\<close> Inr False v have "events' = events @ [Called]"
              by (simp add: retryUpload_loop.simps)
            then show ?thesis by (intro exI [of _ 0]) (simp add: sleeps_append)
          next
            case nb: False
            then have bf: "b = False" by simp
            have run: "retryUpload_loop f te m d (attempt + 1) (Returned (fn_error result)) ?ev = (r, events')"
              using "1.prems"(1) True Inr False v nb by (simp add: retryUpload_loop.simps)
            show ?thesis
              by (rule step [OF run]) (rule "1.IH"(3) [OF True Inr False v bf], assumption+)
          qed
        qed
      qed
    qed
  qed
qed

text \<open>
  The waits of \<open>retryUpload\<close> are those of an exponential backoff: the base delay times
  \<open>2 ^ (attempt - 1)\<close> after the failed attempt \<open>attempt\<close>, the last one included, and none
  after a validation failure, which ends the loop.
\<close>

lemma retryUpload_waits_exponential:
  assumes "retryUpload uploadFunction type_error maxRetries delay events = (r, events')"
  shows "\<exists>n. n \<le> nat (case maxRetries of None \<Rightarrow> 3 | Some m \<Rightarrow> m)
           \<and> sleeps events' =
               sleeps events @
               exponential_backoff (case delay of None \<Rightarrow> 1000 | Some d \<Rightarrow> d) n"
proof -
  let ?m = "case maxRetries of None \<Rightarrow> 3 | Some m \<Rightarrow> m"
  let ?d = "case delay of None \<Rightarrow> 1000 | Some d \<Rightarrow> d"
  have "retryUpload_loop uploadFunction type_error ?m ?d 1 (Returned Undefined) events = (r, events')"
    using assms by (simp add: retryUpload_def)
  from retryUpload_loop_sleeps [OF this]
  obtain n where "nat (1 - 1) + n \<le> max (nat ?m) (nat (1 - 1))"
    and "sleeps events' = sleeps events @ map (\<lambda>k. ?d * 2 ^ (k - 1)) [nat 1 ..< nat 1 + n]"
    by auto
  then have "n \<le> nat ?m \<and> sleeps events' = sleeps events @ exponential_backoff ?d n"
    by (simp add: exponential_backoff_def)
  then show ?thesis by blast
qed

lemma retryUpload_refused_thrice:
  "sleeps (snd (retryUpload (\<lambda>n. Inr \<lparr>fn_success = False, fn_error = Str ''quota exceeded''\<rparr>)
                  (Exn ''TypeError'') None None [])) = [1000, 2000, 4000]"
  by (simp add: retryUpload_def retryUpload_loop.simps is_validation_error_def)

subsection \<open>The cache of public URLs\<close>

lemma constructCdnUrl_nonempty: "constructCdnUrl env p = Inr u \<Longrightarrow> u \<noteq> []"
  by (auto simp add: constructCdnUrl_def split: option.splits list.splits)

lemma getPublicUrl_fallback_cached:
  "getPublicUrl_fallback env p w = (Inr u, w') \<Longrightarrow> cache w' p = Some u \<and> u \<noteq> []"
  by (auto simp add: getPublicUrl_fallback_def dest: constructCdnUrl_nonempty split: sum.splits)

lemma getPublicUrl_generate_cached:
  "getPublicUrl_generate env p w = (Inr u, w') \<Longrightarrow> cache w' p = Some u \<and> u \<noteq> []"
  by (auto simp add: getPublicUrl_generate_def Let_def dest!: getPublicUrl_fallback_cached
        split: sum.splits option.splits if_splits)

lemma getPublicUrl_cached:
  "getPublicUrl env p w = (Inr u, w') \<Longrightarrow> cache w' p = Some u \<and> u \<noteq> []"
  by (auto simp add: getPublicUrl_def dest!: getPublicUrl_generate_cached
        split: option.splits if_splits)

lemma getPublicUrl_hit:
  "cache w p = Some u \<Longrightarrow> u \<noteq> [] \<Longrightarrow> getPublicUrl env p w = (Inr u, w)"
  by (simp add: getPublicUrl_def)

lemma uploadImage_try_cached:
  assumes "uploadImage_try env img entityId options w = (Inr d, w')"
  shows "cache w' (storagePath d) = Some (publicUrl d) \<and> publicUrl d \<noteq> []"
proof -
  obtain f w1 where c: "compressImage env img options w = (Inr f, w1)"
    using compressImage_Inr by blast
  show ?thesis
    using assms
    by (auto simp add: uploadImage_try_def c Let_def dest!: getPublicUrl_cached
          split: sum.splits option.splits prod.splits)
qed

text \<open>
  C7: the URL a call of \<open>getPublicUrl\<close> returns is in the cache under the path afterwards,
  and a call that finds this entry returns the same URL, whatever the storage service
  would answer, and leaves the world as it is: no call is logged. A successful
  \<open>uploadImage\<close> leaves the public URL of its result in the cache under the path it
  uploaded to.
\<close>

theorem getPublicUrl_cache_idempotent:
  "(getPublicUrl env path w = (Inr url, w') \<longrightarrow>
      cache w' path = Some url
      \<and> (\<forall>env2 w2. cache w2 path = Some url \<longrightarrow> getPublicUrl env2 path w2 = (Inr url, w2)))
   \<and> (uploadImage env img entityId options w = (UploadOk d a, w'') \<longrightarrow>
      cache w'' (storagePath d) = Some (publicUrl d)
      \<and> (\<forall>env2. getPublicUrl env2 (storagePath d) w'' = (Inr (publicUrl d), w'')))"
proof (intro conjI impI)
  assume g: "getPublicUrl env path w = (Inr url, w')"
  from getPublicUrl_cached [OF g] show "cache w' path = Some url" by simp
  from getPublicUrl_cached [OF g] have "url \<noteq> []" by simp
  then show "\<forall>env2 w2. cache w2 path = Some url \<longrightarrow> getPublicUrl env2 path w2 = (Inr url, w2)"
    by (simp add: getPublicUrl_hit)
next
  assume u: "uploadImage env img entityId options w = (UploadOk d a, w'')"
  have "loop_post env img entityId options
           (number_or (opt_maxRetries options) (config_maxRetries IMAGE_CONFIG))
           (number_or (opt_retryDelay options) (config_retryDelay IMAGE_CONFIG))
           1 None w (UploadOk d a) w''"
    using u by (intro uploadImage_loop_post) (simp add: uploadImage_def Let_def)
  then obtain wl where "uploadImage_try env img entityId options wl = (Inr d, w'')"
    by (auto simp add: loop_post_def)
  from uploadImage_try_cached [OF this]
  have c: "cache w'' (storagePath d) = Some (publicUrl d)" "publicUrl d \<noteq> []" by simp_all
  from c show "cache w'' (storagePath d) = Some (publicUrl d)" by simp
  from c show "\<forall>env2. getPublicUrl env2 (storagePath d) w'' = (Inr (publicUrl d), w'')"
    by (simp add: getPublicUrl_hit)
qed

theorem getPublicUrl_cache_idempotent_witness:
  "(\<exists>w'. getPublicUrl env_ok ''p/x.png'' w_empty = (Inr ''https://cdn/p/x.png'', w')
         \<and> cache w' ''p/x.png'' = Some ''https://cdn/p/x.png''
         \<and> getPublicUrl env_refusing ''p/x.png'' w' = (Inr ''https://cdn/p/x.png'', w'))
   \<and> (\<exists>d w'. uploadImage env_flaky small_png ''p1'' no_options w_empty = (UploadOk d 2, w')
         \<and> cache w' (storagePath d) = Some (publicUrl d)
         \<and> getPublicUrl env_refusing (storagePath d) w' = (Inr (publicUrl d), w'))"
proof -
  obtain w1 where g: "getPublicUrl env_ok ''p/x.png'' w_empty = (Inr ''https://cdn/p/x.png'', w1)"
    by (simp add: getPublicUrl_def getPublicUrl_generate_def Let_def w_empty_simps env_ok_def)
  obtain d w2 where f: "uploadImage env_flaky small_png ''p1'' no_options w_empty = (UploadOk d 2, w2)"
    using flaky_run by blast
  note t = getPublicUrl_cache_idempotent
    [of env_ok "''p/x.png''" w_empty "''https://cdn/p/x.png''" w1]
  from t g have 1: "cache w1 ''p/x.png'' = Some ''https://cdn/p/x.png''
     \<and> getPublicUrl env_refusing ''p/x.png'' w1 = (Inr ''https://cdn/p/x.png'', w1)"
    by blast
  note t2 = getPublicUrl_cache_idempotent
    [where env = env_flaky and img = small_png and entityId = "''p1''" and options = no_options
       and w = w_empty and d = d and a = 2 and w'' = w2]
  from t2 f have 2: "cache w2 (storagePath d) = Some (publicUrl d)
     \<and> getPublicUrl env_refusing (storagePath d) w2 = (Inr (publicUrl d), w2)"
    by blast
  from g f 1 2 show ?thesis by blast
qed

subsection \<open>Batch upload\<close>

lemma loop_acc:
  "uploadMultipleImages_loop env files entityId options rs ss fs w = ((rs', ss', fs'), w')
   \<Longrightarrow> rs' = rs @ fst (sequential_uploads env files entityId options w)
     \<and> w' = snd (sequential_uploads env files entityId options w)
     \<and> ss' = ss @ List.map_filter successful_entry (fst (sequential_uploads env files entityId options w))
     \<and> fs' = fs @ List.map_filter failed_entry
                    (zip files (fst (sequential_uploads env files entityId options w)))"
proof (induction files arbitrary: rs ss fs w)
  case Nil
  then show ?case by (simp add: List.map_filter_simps)
next
  case (Cons f files)
  obtain r w1 where u: "uploadImage env f entityId options w = (r, w1)"
    by (cases "uploadImage env f entityId options w")
  obtain rs2 w2 where s: "sequential_uploads env files entityId options w1 = (rs2, w2)"
    by (cases "sequential_uploads env files entityId options w1")
  show ?case
  proof (cases r)
    case (UploadOk d a)
    with Cons.prems u have
      "uploadMultipleImages_loop env files entityId options (rs @ [r]) (ss @ [d]) fs w1 = ((rs', ss', fs'), w')"
      by simp
    from Cons.IH [OF this] show ?thesis
      using u s UploadOk by (simp add: List.map_filter_simps)
  next
    case (UploadFailed e n)
    with Cons.prems u have
      "uploadMultipleImages_loop env files entityId options (rs @ [r]) ss
         (fs @ [\<lparr>failed_file = file_name f, failed_error = e, failed_attempt = n\<rparr>]) w1 = ((rs', ss', fs'), w')"
      by simp
    from Cons.IH [OF this] show ?thesis
      using u s UploadFailed by (simp add: List.map_filter_simps)
  qed
qed

lemma sequential_uploads_length_aux:
  "sequential_uploads env files entityId options w = (rs, w') \<Longrightarrow> length rs = length files"
  by (induction files arbitrary: w rs w') (auto split: prod.splits)

lemma sequential_uploads_length:
  "length (fst (sequential_uploads env files entityId options w)) = length files"
  using sequential_uploads_length_aux [of env files entityId options w] by (metis prod.collapse)

lemma sequential_uploads_append:
  "sequential_uploads env (fs1 @ fs2) entityId options w =
     (case sequential_uploads env fs1 entityId options w of
        (rs1, w1) \<Rightarrow>
          (case sequential_uploads env fs2 entityId options w1 of
             (rs2, w2) \<Rightarrow> (rs1 @ rs2, w2)))"
  by (induction fs1 arbitrary: w) (auto split: prod.splits)

lemma partition_count:
  "length files = length rs \<Longrightarrow>
     length (List.map_filter successful_entry rs) + length (List.map_filter failed_entry (zip files rs))
       = length rs"
proof (induction files rs rule: list_induct2)
  case Nil
  then show ?case by (simp add: List.map_filter_simps)
next
  case (Cons f files r rs)
  then show ?case by (cases r) (simp_all add: List.map_filter_simps)
qed

lemma no_failed_iff_all_success:
  "length files = length rs \<Longrightarrow>
     (List.map_filter failed_entry (zip files rs) = []) = list_all success rs"
proof (induction files rs rule: list_induct2)
  case Nil
  then show ?case by (simp add: List.map_filter_simps)
next
  case (Cons f files r rs)
  then show ?case by (cases r) (simp_all add: List.map_filter_simps)
qed

text \<open>
  C6: \<open>uploadMultipleImages\<close> uploads the files one after the other in the order of the
  input; \<open>results\<close> has one entry per file in that order; \<open>successfulUploads\<close> holds the
  data of the successful results and \<open>failedUploads\<close> an entry for each failed one, so they
  partition the results; the summary counts them, and \<open>success\<close> is true exactly when
  \<open>failedUploads\<close> is empty, that is, when every result is a success.
\<close>

theorem uploadMultipleImages_bookkeeping:
  assumes "uploadMultipleImages env files entityId options w = (b, w')"
  shows "results b = fst (sequential_uploads env files entityId options w)
     \<and> w' = snd (sequential_uploads env files entityId options w)
     \<and> length (results b) = length files
     \<and> successfulUploads b = List.map_filter successful_entry (results b)
     \<and> failedUploads b = List.map_filter failed_entry (zip files (results b))
     \<and> total (summary b) = length files
     \<and> successful (summary b) = length (successfulUploads b)
     \<and> failed (summary b) = length (failedUploads b)
     \<and> successful (summary b) + failed (summary b) = total (summary b)
     \<and> batch_success b = (failedUploads b = [])
     \<and> batch_success b = list_all success (results b)"
proof -
  obtain rs ss fs w1 where l:
    "uploadMultipleImages_loop env files entityId options [] [] [] w = ((rs, ss, fs), w1)"
    by (metis prod.exhaust)
  note acc = loop_acc [OF l]
  have b: "b = \<lparr>batch_success = (length fs = 0), results = rs, successfulUploads = ss,
                 failedUploads = fs,
                 summary = \<lparr>total = length files, successful = length ss, failed = length fs\<rparr>\<rparr>"
    and w': "w' = w1"
    using assms l by (simp_all add: uploadMultipleImages_def)
  have len: "length rs = length files"
    using acc by (simp add: sequential_uploads_length)
  have cnt: "length ss + length fs = length files"
    using acc len partition_count [of files rs] by simp
  have ok: "(fs = []) = list_all success rs"
    using acc len no_failed_iff_all_success [of files rs] by simp
  show ?thesis
    using acc len cnt ok by (simp add: b w')
qed

theorem uploadMultipleImages_bookkeeping_witness:
  "(\<exists>b w'. uploadMultipleImages env_refusing [small_png] ''p1'' no_options w_empty = (b, w')
     \<and> results b = [UploadFailed (ErrorObject (Exn ''quota exceeded'')) 3]
     \<and> successfulUploads b = []
     \<and> failedUploads b =
         [\<lparr>failed_file = ''a.png'', failed_error = ErrorObject (Exn ''quota exceeded''),
           failed_attempt = 3\<rparr>]
     \<and> total (summary b) = 1 \<and> successful (summary b) = 0 \<and> failed (summary b) = 1
     \<and> \<not> batch_success b)
   \<and> (\<exists>b w' d. uploadMultipleImages env_flaky [small_png] ''p1'' no_options w_empty = (b, w')
     \<and> results b = [UploadOk d 2]
     \<and> successfulUploads b = [d]
     \<and> failedUploads b = []
     \<and> total (summary b) = 1 \<and> successful (summary b) = 1 \<and> failed (summary b) = 0
     \<and> batch_success b)"
proof -
  obtain b w1 where u: "uploadMultipleImages env_refusing [small_png] ''p1'' no_options w_empty = (b, w1)"
    by (metis prod.exhaust)
  obtain wr where r: "uploadImage env_refusing small_png ''p1'' no_options w_empty =
      (UploadFailed (ErrorObject (Exn ''quota exceeded'')) 3, wr)"
    using refusing_run [of "''p1''" w_empty] by blast
  have s: "fst (sequential_uploads env_refusing [small_png] ''p1'' no_options w_empty) =
     [UploadFailed (ErrorObject (Exn ''quota exceeded'')) 3]"
    by (simp add: r)
  have n: "file_name small_png = ''a.png''" by (simp add: small_png_def)
  have 1: "\<exists>b w'. uploadMultipleImages env_refusing [small_png] ''p1'' no_options w_empty = (b, w')
     \<and> results b = [UploadFailed (ErrorObject (Exn ''quota exceeded'')) 3]
     \<and> successfulUploads b = []
     \<and> failedUploads b =
         [\<lparr>failed_file = ''a.png'', failed_error = ErrorObject (Exn ''quota exceeded''),
           failed_attempt = 3\<rparr>]
     \<and> total (summary b) = 1 \<and> successful (summary b) = 0 \<and> failed (summary b) = 1
     \<and> \<not> batch_success b"
    using uploadMultipleImages_bookkeeping [OF u] u
    by (simp add: s n List.map_filter_simps del: sequential_uploads.simps)
  obtain b2 w2 where u2: "uploadMultipleImages env_flaky [small_png] ''p1'' no_options w_empty = (b2, w2)"
    by (metis prod.exhaust)
  obtain d wf where f: "uploadImage env_flaky small_png ''p1'' no_options w_empty = (UploadOk d 2, wf)"
    using flaky_run by blast
  have s2: "fst (sequential_uploads env_flaky [small_png] ''p1'' no_options w_empty) = [UploadOk d 2]"
    by (simp add: f)
  have 2: "\<exists>b w' d. uploadMultipleImages env_flaky [small_png] ''p1'' no_options w_empty = (b, w')
     \<and> results b = [UploadOk d 2]
     \<and> successfulUploads b = [d]
     \<and> failedUploads b = []
     \<and> total (summary b) = 1 \<and> successful (summary b) = 1 \<and> failed (summary b) = 0
     \<and> batch_success b"
    using uploadMultipleImages_bookkeeping [OF u2] u2
    by (simp add: s2 List.map_filter_simps del: sequential_uploads.simps)
  from 1 2 show ?thesis by blast
qed

subsection \<open>Deleting an image\<close>

text \<open>
  C10: \<open>deleteImage\<close> succeeds exactly when the storage service removes the file; then the
  cache entry of the path is gone. When the service answers with an error or the call
  throws, the result carries the error's message and the cache is as before.
\<close>

theorem deleteImage_cache_atomic:
  "(storage_remove env (length (trace w)) bucket [path] = Inr None \<longrightarrow>
      fst (deleteImage env path w) = DeleteOk ''Image deleted successfully''
      \<and> cache (snd (deleteImage env path w)) = (cache w)(path := None))
   \<and> (storage_remove env (length (trace w)) bucket [path] = Inr (Some error) \<longrightarrow>
      fst (deleteImage env path w) = DeleteFailed (message error)
      \<and> cache (snd (deleteImage env path w)) = cache w)
   \<and> (storage_remove env (length (trace w)) bucket [path] = Inl error \<longrightarrow>
      fst (deleteImage env path w) = DeleteFailed (message error)
      \<and> cache (snd (deleteImage env path w)) = cache w)
   \<and> ((\<exists>m. fst (deleteImage env path w) = DeleteOk m) \<longleftrightarrow>
        storage_remove env (length (trace w)) bucket [path] = Inr None)
   \<and> trace (snd (deleteImage env path w)) = trace w @ [EvRemove bucket [path]]"
  by (auto simp add: deleteImage_def Let_def emit_def split: sum.splits option.splits)

theorem deleteImage_cache_atomic_witness:
  "fst (deleteImage env_ok ''p/x.png'' w_cached) = DeleteOk ''Image deleted successfully''
   \<and> cache (snd (deleteImage env_ok ''p/x.png'' w_cached)) ''p/x.png'' = None
   \<and> fst (deleteImage env_denying ''p/x.png'' w_cached) = DeleteFailed ''access denied''
   \<and> cache (snd (deleteImage env_denying ''p/x.png'' w_cached)) ''p/x.png'' =
        Some ''https://cdn/p/x.png''
   \<and> fst (deleteImage env_offline ''p/x.png'' w_cached) = DeleteFailed ''Failed to fetch''
   \<and> cache (snd (deleteImage env_offline ''p/x.png'' w_cached)) ''p/x.png'' =
        Some ''https://cdn/p/x.png''"
  using deleteImage_cache_atomic [of env_ok w_cached "''p/x.png''"]
    deleteImage_cache_atomic [of env_denying w_cached "''p/x.png''" "Exn ''access denied''"]
    deleteImage_cache_atomic [of env_offline w_cached "''p/x.png''" "Exn ''Failed to fetch''"]
  by (simp add: env_ok_def env_denying_def env_offline_def w_cached_def)

subsection \<open>The REST client: tokens, requests and normalisation\<close>

lemma getAuthToken_nonempty: "getAuthToken env = Some t \<Longrightarrow> t \<noteq> []"
  by (auto simp add: getAuthToken_def split: sum.splits prod.splits option.splits if_splits)

lemma logged_token_nonempty: "truthy x \<Longrightarrow> logged_token x = Some t \<Longrightarrow> t \<noteq> []"
  by (cases x) auto

lemma parsed_token_nonempty: "parsed_token v = Some t \<Longrightarrow> t \<noteq> []"
  by (auto simp add: parsed_token_def dest: logged_token_nonempty split: if_splits)

lemma extra_scan_nonempty: "scan_keys env keys = Found t \<Longrightarrow> t \<noteq> []"
  by (induction keys)
     (auto dest: parsed_token_nonempty split: sum.splits option.splits if_splits)

lemma extra_getAuthToken_nonempty: "extra_getAuthToken env = Some t \<Longrightarrow> t \<noteq> []"
  by (auto simp add: extra_getAuthToken_def dest: extra_scan_nonempty
        split: scan.splits sum.splits option.splits if_splits)

lemma authorize_headers:
  "(\<And>t. token = Some t \<Longrightarrow> t \<noteq> []) \<Longrightarrow>
     authorize [(''Content-Type'', ''application/json'')] token = headers_with token"
  by (cases token) (simp_all add: authorize_def headers_with_def)

lemma post_with_normalizes:
  "snd (post_with env token endpoint data) =
     [\<lparr>req_url = API_URL env @ endpoint, req_method = Some ''POST'',
       req_headers = authorize [(''Content-Type'', ''application/json'')] token,
       req_body = JSON_stringify env data\<rparr>]
   \<and> normalizes env (fst (post_with env token endpoint data))
        (fetch env \<lparr>req_url = API_URL env @ endpoint, req_method = Some ''POST'',
                     req_headers = authorize [(''Content-Type'', ''application/json'')] token,
                     req_body = JSON_stringify env data\<rparr>)
        resp_json error_field"
  by (simp add: post_with_def Let_def normalizes_def get_property_def error_field_def
        split: sum.splits)

lemma put_with_normalizes:
  "snd (put_with env token endpoint data) =
     [\<lparr>req_url = API_URL env @ endpoint, req_method = Some ''PUT'',
       req_headers = authorize [(''Content-Type'', ''application/json'')] token,
       req_body = JSON_stringify env data\<rparr>]
   \<and> normalizes env (fst (put_with env token endpoint data))
        (fetch env \<lparr>req_url = API_URL env @ endpoint, req_method = Some ''PUT'',
                     req_headers = authorize [(''Content-Type'', ''application/json'')] token,
                     req_body = JSON_stringify env data\<rparr>)
        resp_json error_field"
  by (simp add: put_with_def Let_def normalizes_def get_property_def error_field_def
        split: sum.splits)

lemma delete_with_normalizes:
  "snd (delete_with env token endpoint) =
     [\<lparr>req_url = API_URL env @ endpoint, req_method = Some ''DELETE'',
       req_headers = authorize [(''Content-Type'', ''application/json'')] token,
       req_body = None\<rparr>]
   \<and> normalizes env (fst (delete_with env token endpoint))
        (fetch env \<lparr>req_url = API_URL env @ endpoint, req_method = Some ''DELETE'',
                     req_headers = authorize [(''Content-Type'', ''application/json'')] token,
                     req_body = None\<rparr>)
        resp_json delete_error"
  by (simp add: delete_with_def Let_def normalizes_def get_property_def delete_error_def
        split: sum.splits)

lemma get_with_normalizes:
  "snd (get_with env token endpoint) =
     [\<lparr>req_url = API_URL env @ endpoint, req_method = None,
       req_headers = authorize [(''Content-Type'', ''application/json'')] token,
       req_body = None\<rparr>]
   \<and> normalizes env (fst (get_with env token endpoint))
        (fetch env \<lparr>req_url = API_URL env @ endpoint, req_method = None,
                     req_headers = authorize [(''Content-Type'', ''application/json'')] token,
                     req_body = None\<rparr>)
        (get_body env) get_error"
  by (simp add: get_with_def Let_def normalizes_def get_property_def get_error_def
        split: sum.splits)


lemma network_failure_fields:
  "api_success (network_failure e) = False" "api_data (network_failure e) = Null"
  "api_error (network_failure e) =
     Str (if message e \<noteq> [] then message e else ''Network error. Please try again later.'')"
  by (simp_all add: network_failure_def)


lemma api_404_token: "getAuthToken api_404 = None"
  by (simp add: getAuthToken_def api_404_def)

lemma api_200_token: "getAuthToken api_200 = Some ''tok123''"
  by (simp add: getAuthToken_def api_200_def api_404_def)

lemma api_down_token: "getAuthToken api_down = Some ''tok123''"
  by (simp add: getAuthToken_def api_down_def api_200_def api_404_def)

lemma api_anonymous_token: "getAuthToken api_anonymous = None"
  by (simp add: getAuthToken_def api_anonymous_def)



lemma getAuthToken_Some:
  "getAuthToken env = Some t \<longleftrightarrow>
     (\<exists>s. auth_getSession env = Inr (Some s, None) \<and> access_token s = t \<and> t \<noteq> [])"
  by (auto simp add: getAuthToken_def split: sum.splits prod.splits option.splits if_splits)

lemma authorize_getAuthToken:
  "authorize [(''Content-Type'', ''application/json'')] (getAuthToken env) =
     headers_with (getAuthToken env)"
  by (rule authorize_headers) (rule getAuthToken_nonempty)




text \<open>
  C4: every method of \<open>src/client/src/utils/apiClient.js\<close> sends exactly one request, to
  \<open>API_URL\<close> followed by the endpoint, with the header \<open>Content-Type\<close> and, exactly when
  \<open>getAuthToken\<close> returns a token, the header \<open>Authorization: Bearer <token>\<close>;
  \<open>getAuthToken\<close> returns a token exactly when the SDK answers without error with a session
  whose access token is not empty. Without a token the request is sent with the
  \<open>Content-Type\<close> header alone, and a successful answer gives a successful result.
\<close>

theorem apiClient_authorization:
  "snd (apiClient_get env endpoint) =
     [\<lparr>req_url = API_URL env @ endpoint, req_method = None,
       req_headers = headers_with (getAuthToken env), req_body = None\<rparr>]
   \<and> snd (apiClient_post env endpoint data) =
     [\<lparr>req_url = API_URL env @ endpoint, req_method = Some ''POST'',
       req_headers = headers_with (getAuthToken env), req_body = JSON_stringify env data\<rparr>]
   \<and> snd (apiClient_put env endpoint data) =
     [\<lparr>req_url = API_URL env @ endpoint, req_method = Some ''PUT'',
       req_headers = headers_with (getAuthToken env), req_body = JSON_stringify env data\<rparr>]
   \<and> snd (apiClient_delete env endpoint) =
     [\<lparr>req_url = API_URL env @ endpoint, req_method = Some ''DELETE'',
       req_headers = headers_with (getAuthToken env), req_body = None\<rparr>]
   \<and> map_of (headers_with (getAuthToken env)) ''Authorization'' =
       (case getAuthToken env of None \<Rightarrow> None | Some t \<Rightarrow> Some (''Bearer '' @ t))
   \<and> (getAuthToken env = Some t \<longleftrightarrow>
       (\<exists>s. auth_getSession env = Inr (Some s, None) \<and> access_token s = t \<and> t \<noteq> []))
   \<and> (getAuthToken env = None \<longrightarrow>
       headers_with (getAuthToken env) = [(''Content-Type'', ''application/json'')]
       \<and> (\<forall>resp b.
             fetch env \<lparr>req_url = API_URL env @ endpoint, req_method = Some ''POST'',
                         req_headers = [(''Content-Type'', ''application/json'')],
                         req_body = JSON_stringify env data\<rparr> = Inr resp
             \<and> resp_ok resp \<and> resp_json resp = Inr b
             \<longrightarrow> fst (apiClient_post env endpoint data) =
                   \<lparr>api_success = True, api_data = b, api_error = Null, api_status = None\<rparr>))"
proof -
  have 1: "snd (apiClient_get env endpoint) =
     [\<lparr>req_url = API_URL env @ endpoint, req_method = None,
       req_headers = headers_with (getAuthToken env), req_body = None\<rparr>]"
    using get_with_normalizes [of env "getAuthToken env" endpoint]
    by (simp add: apiClient_get_def authorize_getAuthToken)
  have 2: "snd (apiClient_post env endpoint data) =
     [\<lparr>req_url = API_URL env @ endpoint, req_method = Some ''POST'',
       req_headers = headers_with (getAuthToken env), req_body = JSON_stringify env data\<rparr>]"
    using post_with_normalizes [of env "getAuthToken env" endpoint data]
    by (simp add: apiClient_post_def authorize_getAuthToken)
  have 3: "snd (apiClient_put env endpoint data) =
     [\<lparr>req_url = API_URL env @ endpoint, req_method = Some ''PUT'',
       req_headers = headers_with (getAuthToken env), req_body = JSON_stringify env data\<rparr>]"
    using put_with_normalizes [of env "getAuthToken env" endpoint data]
    by (simp add: apiClient_put_def authorize_getAuthToken)
  have 4: "snd (apiClient_delete env endpoint) =
     [\<lparr>req_url = API_URL env @ endpoint, req_method = Some ''DELETE'',
       req_headers = headers_with (getAuthToken env), req_body = None\<rparr>]"
    using delete_with_normalizes [of env "getAuthToken env" endpoint]
    by (simp add: apiClient_delete_def authorize_getAuthToken)
  have 5: "map_of (headers_with (getAuthToken env)) ''Authorization'' =
       (case getAuthToken env of None \<Rightarrow> None | Some t \<Rightarrow> Some (''Bearer '' @ t))"
    by (simp add: headers_with_def split: option.splits)
  note 6 = getAuthToken_Some [of env t]
  have 7: "getAuthToken env = None \<longrightarrow>
       headers_with (getAuthToken env) = [(''Content-Type'', ''application/json'')]
       \<and> (\<forall>resp b.
             fetch env \<lparr>req_url = API_URL env @ endpoint, req_method = Some ''POST'',
                         req_headers = [(''Content-Type'', ''application/json'')],
                         req_body = JSON_stringify env data\<rparr> = Inr resp
             \<and> resp_ok resp \<and> resp_json resp = Inr b
             \<longrightarrow> fst (apiClient_post env endpoint data) =
                   \<lparr>api_success = True, api_data = b, api_error = Null, api_status = None\<rparr>)"
    by (simp add: headers_with_def apiClient_post_def post_with_def Let_def authorize_def)
  from 1 2 3 4 5 6 7 show ?thesis by (intro conjI)
qed

theorem apiClient_authorization_witness:
  "snd (apiClient_get api_200 ''/api/posts'') =
     [\<lparr>req_url = ''https://peechey.vercel.app/api/posts'', req_method = None,
       req_headers = [(''Content-Type'', ''application/json''),
                      (''Authorization'', ''Bearer tok123'')],
       req_body = None\<rparr>]
   \<and> snd (apiClient_delete api_404 ''/api/posts/1'') =
     [\<lparr>req_url = ''https://peechey.vercel.app/api/posts/1'', req_method = Some ''DELETE'',
       req_headers = [(''Content-Type'', ''application/json'')],
       req_body = None\<rparr>]
   \<and> snd (apiClient_post api_anonymous ''/api/posts'' (Obj [])) =
     [\<lparr>req_url = ''https://peechey.vercel.app/api/posts'', req_method = Some ''POST'',
       req_headers = [(''Content-Type'', ''application/json'')],
       req_body = Some ''{}''\<rparr>]
   \<and> fst (apiClient_post api_anonymous ''/api/posts'' (Obj [])) =
     \<lparr>api_success = True, api_data = Obj [(''id'', Num 7)], api_error = Null,
      api_status = None\<rparr>"
proof -
  have u: "API_URL api_200 = ''https://peechey.vercel.app''"
    "API_URL api_404 = ''https://peechey.vercel.app''"
    "API_URL api_anonymous = ''https://peechey.vercel.app''"
    "JSON_stringify api_anonymous (Obj []) = Some ''{}''"
    by (simp_all add: api_anonymous_def api_200_def api_404_def)
  have f: "\<And>req. fetch api_anonymous req =
      Inr \<lparr>resp_ok = True, resp_status = 200,
           resp_content_type = Some ''application/json; charset=utf-8'',
           resp_json = Inr (Obj [(''id'', Num 7)]), resp_text = Inr ''{}''\<rparr>"
    by (simp add: api_anonymous_def api_200_def api_404_def)
  have 1: "snd (apiClient_get api_200 ''/api/posts'') =
     [\<lparr>req_url = ''https://peechey.vercel.app/api/posts'', req_method = None,
       req_headers = [(''Content-Type'', ''application/json''),
                      (''Authorization'', ''Bearer tok123'')],
       req_body = None\<rparr>]
   \<and> snd (apiClient_delete api_404 ''/api/posts/1'') =
     [\<lparr>req_url = ''https://peechey.vercel.app/api/posts/1'', req_method = Some ''DELETE'',
       req_headers = [(''Content-Type'', ''application/json'')],
       req_body = None\<rparr>]"
    using apiClient_authorization [of api_200 "''/api/posts''" "Obj []" "''tok123''"]
      apiClient_authorization [of api_404 "''/api/posts/1''" "Obj []" "''tok123''"]
    by (simp add: api_200_token api_404_token headers_with_def u)
  have 2: "snd (apiClient_post api_anonymous ''/api/posts'' (Obj [])) =
     [\<lparr>req_url = ''https://peechey.vercel.app/api/posts'', req_method = Some ''POST'',
       req_headers = [(''Content-Type'', ''application/json'')],
       req_body = Some ''{}''\<rparr>]
   \<and> fst (apiClient_post api_anonymous ''/api/posts'' (Obj [])) =
     \<lparr>api_success = True, api_data = Obj [(''id'', Num 7)], api_error = Null,
      api_status = None\<rparr>"
    using apiClient_authorization [of api_anonymous "''/api/posts''" "Obj []" "''tok123''"]
    by (simp add: api_anonymous_token headers_with_def u f)
  from 1 2 show ?thesis by simp
qed

subsection \<open>Sending a chat message\<close>

lemma scrollToBottom_frame:
  "scrollToBottom env w = (r, w1) \<Longrightarrow>
     http_requests w1 = http_requests w \<and> persistent_storage w1 = persistent_storage w"
  by (auto simp add: scrollToBottom_def split: if_splits)

lemma trim_hello: "trim '' hello '' = ''hello''"
  by (simp add: trim_def js_whitespace_def)

text \<open>
  C9: \<open>handleSendMessage\<close> sends no HTTP request and writes nothing to the persistent
  storage. Without a user, with an input of white space only, or while a message is being
  sent, it does nothing at all; otherwise it appends the mock message, built from the
  trimmed input, the user and the clock, to the messages of the component, and clears the
  input (when scrolling throws, the \<open>catch\<close> block restores the input instead).
\<close>

theorem handleSendMessage_local_only:
  "http_requests (snd (handleSendMessage env st w)) = http_requests w
   \<and> persistent_storage (snd (handleSendMessage env st w)) = persistent_storage w
   \<and> (user st = None \<or> trim (newMessage st) = [] \<or> isSendingMessage st
        \<longrightarrow> handleSendMessage env st w = (st, w))
   \<and> (user st = Some u \<and> trim (newMessage st) \<noteq> [] \<and> \<not> isSendingMessage st
        \<longrightarrow> messages (fst (handleSendMessage env st w)) =
              messages st @
              [\<lparr>message_id = string_of_nat (chat_Date_now env),
                content = trim (newMessage st),
                sender_id = user_id u,
                created_at = toISOString env (chat_new_Date env),
                sender = \<lparr>sender_ident = user_id u, username = user_name u,
                           full_name = user_name u, avatar_url = None\<rparr>\<rparr>]
            \<and> user (fst (handleSendMessage env st w)) = user st
            \<and> \<not> isSendingMessage (fst (handleSendMessage env st w))
            \<and> (fst (scrollToBottom env w) = None
                 \<longrightarrow> newMessage (fst (handleSendMessage env st w)) = []
                     \<and> error_state (fst (handleSendMessage env st w)) = error_state st))"
proof -
  obtain r w1 where s: "scrollToBottom env w = (r, w1)"
    by (cases "scrollToBottom env w")
  note fr = scrollToBottom_frame [OF s]
  have 1: "http_requests (snd (handleSendMessage env st w)) = http_requests w"
    using fr by (simp add: handleSendMessage_def Let_def s split: option.splits)
  have 2: "persistent_storage (snd (handleSendMessage env st w)) = persistent_storage w"
    using fr by (simp add: handleSendMessage_def Let_def s split: option.splits)
  have 3: "user st = None \<or> trim (newMessage st) = [] \<or> isSendingMessage st
        \<longrightarrow> handleSendMessage env st w = (st, w)"
    by (auto simp add: handleSendMessage_def split: option.splits)
  have 4: "user st = Some u \<and> trim (newMessage st) \<noteq> [] \<and> \<not> isSendingMessage st
        \<longrightarrow> messages (fst (handleSendMessage env st w)) =
              messages st @
              [\<lparr>message_id = string_of_nat (chat_Date_now env),
                content = trim (newMessage st),
                sender_id = user_id u,
                created_at = toISOString env (chat_new_Date env),
                sender = \<lparr>sender_ident = user_id u, username = user_name u,
                           full_name = user_name u, avatar_url = None\<rparr>\<rparr>]
            \<and> user (fst (handleSendMessage env st w)) = user st
            \<and> \<not> isSendingMessage (fst (handleSendMessage env st w))
            \<and> (fst (scrollToBottom env w) = None
                 \<longrightarrow> newMessage (fst (handleSendMessage env st w)) = []
                     \<and> error_state (fst (handleSendMessage env st w)) = error_state st)"
    by (cases r) (simp_all add: handleSendMessage_def Let_def s)
  from 1 2 3 4 show ?thesis by (intro conjI)
qed

theorem handleSendMessage_local_only_witness:
  "map content (messages (fst (handleSendMessage chat_env_demo chat_state_typing chat_world_idle)))
     = [''hello'']
   \<and> newMessage (fst (handleSendMessage chat_env_demo chat_state_typing chat_world_idle)) = []
   \<and> http_requests (snd (handleSendMessage chat_env_demo chat_state_typing chat_world_idle)) = []
   \<and> persistent_storage (snd (handleSendMessage chat_env_demo chat_state_typing chat_world_idle))
       = Map.empty
   \<and> handleSendMessage chat_env_demo (chat_state_typing\<lparr>newMessage := ''  ''\<rparr>) chat_world_idle
       = (chat_state_typing\<lparr>newMessage := ''  ''\<rparr>, chat_world_idle)"
proof -
  have s: "fst (scrollToBottom chat_env_demo chat_world_idle) = None"
    by (simp add: scrollToBottom_def chat_env_demo_def)
  have f: "user chat_state_typing = Some \<lparr>user_id = ''demo-user-id'', user_name = ''Demo User''\<rparr>"
    "newMessage chat_state_typing = '' hello ''" "\<not> isSendingMessage chat_state_typing"
    "messages chat_state_typing = []"
    by (simp_all add: chat_state_typing_def)
  have w: "http_requests chat_world_idle = []" "persistent_storage chat_world_idle = Map.empty"
    by (simp_all add: chat_world_idle_def)
  have t: "trim ''  '' = []" by (simp add: trim_def js_whitespace_def)
  show ?thesis
    using handleSendMessage_local_only
      [of chat_env_demo chat_state_typing chat_world_idle
          "\<lparr>user_id = ''demo-user-id'', user_name = ''Demo User''\<rparr>"]
      handleSendMessage_local_only
      [of chat_env_demo "chat_state_typing\<lparr>newMessage := ''  ''\<rparr>" chat_world_idle
          "\<lparr>user_id = ''demo-user-id'', user_name = ''Demo User''\<rparr>"]
    by (simp add: s f w t trim_hello)
qed

end
